theory Spec2Isabelle
  imports Complex_Main
begin

section \<open>Python values shared by the components\<close>

text \<open>
  Exceptions of the Python source are values.  A Python float is an IEEE 754 double; it is
  modelled by the real number it denotes, and every arithmetic operation on floats by the
  exact operation followed by \<open>double\<close>, the rounding to the nearest number with a 53-bit
  significand, ties going to the even significand.  The exponent range is not bounded:
  infinities, NaN and results below the normal range are outside the model.  A float that
  enters from outside (a landmark coordinate, a visibility, a constructor argument, a literal
  of the source) is read through \<open>double\<close> as well, which leaves a double as it is.
\<close>

datatype error = ValueError | ZeroDivisionError

definition round_half_even :: "real \<Rightarrow> int" where
  "round_half_even r =
     (let f = \<lfloor>r\<rfloor>; d = r - of_int f
      in if d < 1 / 2 then f else if d > 1 / 2 then f + 1 else if even f then f else f + 1)"

definition double :: "real \<Rightarrow> real" where
  "double x =
     (if x = 0 then 0
      else let e = \<lfloor>log 2 \<bar>x\<bar>\<rfloor>
           in of_int (round_half_even (x * 2 powr (52 - of_int e))) * 2 powr (of_int e - 52))"

text \<open>\<^verbatim>\<open>int(x)\<close> on a float truncates towards zero.\<close>

definition py_int :: "real \<Rightarrow> int" where
  "py_int r = (if 0 \<le> r then \<lfloor>r\<rfloor> else \<lceil>r\<rceil>)"

text \<open>
  \<^verbatim>\<open>collections.deque(maxlen=n).append(x)\<close>: the element is added on the right and,
  when the deque then holds more than \<open>maxlen\<close> elements, the leftmost one is removed
  (with \<open>maxlen = 0\<close> the deque stays empty).
\<close>

definition deque_append :: "int \<Rightarrow> 'a list \<Rightarrow> 'a \<Rightarrow> 'a list" where
  "deque_append maxlen d x =
     (let d' = d @ [x] in if int (length d') > maxlen then tl d' else d')"

section \<open>video/video\_recorder.py: VideoRecorder\<close>

text \<open>
  The recorder object.  \<open>frame_buffer\<close> is the deque with \<open>maxlen = buffer_size\<close> (the
  rolling pre-roll ring), \<open>current_video_frames\<close> the active recording.  A frame argument
  is a \<^typ>\<open>'f option\<close>, \<open>None\<close> being Python's \<^verbatim>\<open>None\<close>; \<^verbatim>\<open>frame.copy()\<close> is the
  frame itself, frames being values here.
\<close>

record 'f VideoRecorder =
  buffer_seconds :: real
  fps :: int
  buffer_size :: int
  frame_buffer :: "'f list"
  is_recording :: bool
  current_video_frames :: "'f list"

text \<open>
  \<^verbatim>\<open>__init__\<close>: \<open>buffer_size\<close> is \<^verbatim>\<open>int(buffer_seconds * fps)\<close>, the float product of the
  seconds and the frame rate converted to float, truncated; \<^verbatim>\<open>deque(maxlen=...)\<close> raises
  ValueError on a negative \<open>maxlen\<close>.
\<close>

definition VideoRecorder_init :: "real \<Rightarrow> int \<Rightarrow> error + 'f VideoRecorder" where
  "VideoRecorder_init secs rate =
     (let size = py_int (double (double secs * double (real_of_int rate)))
      in if size < 0 then Inl ValueError
         else Inr \<lparr>buffer_seconds = double secs, fps = rate, buffer_size = size,
                   frame_buffer = [], is_recording = False, current_video_frames = []\<rparr>)"

definition add_frame :: "'f VideoRecorder \<Rightarrow> 'f option \<Rightarrow> 'f VideoRecorder" where
  "add_frame r frame =
     (case frame of
        None \<Rightarrow> r
      | Some f \<Rightarrow> r\<lparr>frame_buffer := deque_append (buffer_size r) (frame_buffer r) f\<rparr>)"

definition start_recording :: "'f VideoRecorder \<Rightarrow> 'f VideoRecorder" where
  "start_recording r = r\<lparr>is_recording := True, current_video_frames := frame_buffer r\<rparr>"

definition add_recording_frame :: "'f VideoRecorder \<Rightarrow> 'f option \<Rightarrow> 'f VideoRecorder" where
  "add_recording_frame r frame =
     (case frame of
        None \<Rightarrow> r
      | Some f \<Rightarrow>
          if is_recording r then r\<lparr>current_video_frames := current_video_frames r @ [f]\<rparr>
          else r)"

text \<open>\<^verbatim>\<open>stop_recording\<close> returns the recorder after the call and the returned list.\<close>

definition stop_recording :: "'f VideoRecorder \<Rightarrow> 'f VideoRecorder \<times> 'f list" where
  "stop_recording r =
     (r\<lparr>is_recording := False, current_video_frames := []\<rparr>, current_video_frames r)"

text \<open>A sequence of calls on one recorder, as the video thread and the window issue them.\<close>

datatype 'f recorder_call =
  AddFrame "'f option" | StartRecording | AddRecordingFrame "'f option" | StopRecording

fun recorder_step :: "'f VideoRecorder \<Rightarrow> 'f recorder_call \<Rightarrow> 'f VideoRecorder" where
  "recorder_step r (AddFrame frame) = add_frame r frame"
| "recorder_step r StartRecording = start_recording r"
| "recorder_step r (AddRecordingFrame frame) = add_recording_frame r frame"
| "recorder_step r StopRecording = fst (stop_recording r)"

section \<open>video/shot\_detector.py: ShotDetector\<close>

text \<open>
  A pose landmark is the dictionary \<^verbatim>\<open>{'x': .., 'y': .., 'visibility': ..}\<close> of the pose
  detector; \<^verbatim>\<open>.get('visibility', 0)\<close> is read through \<open>get_visibility\<close>.  The landmarks
  of a frame are a dictionary from landmark index to landmark.  Of a frame the detector
  reads only \<^verbatim>\<open>frame.shape[:2]\<close>, the pair (height, width).
\<close>

record landmark =
  lm_x :: real
  lm_y :: real
  lm_visibility :: "real option"

type_synonym landmarks = "nat \<rightharpoonup> landmark"

record ndarray =
  shape :: "nat \<times> nat"

type_synonym position = "int \<times> int"

definition get_visibility :: "landmark \<Rightarrow> real" where
  "get_visibility l = (case lm_visibility l of None \<Rightarrow> 0 | Some v \<Rightarrow> double v)"

definition LEFT_WRIST :: nat where "LEFT_WRIST = 15"
definition RIGHT_WRIST :: nat where "RIGHT_WRIST = 16"
definition LEFT_ELBOW :: nat where "LEFT_ELBOW = 13"
definition RIGHT_ELBOW :: nat where "RIGHT_ELBOW = 14"
definition LEFT_SHOULDER :: nat where "LEFT_SHOULDER = 11"
definition RIGHT_SHOULDER :: nat where "RIGHT_SHOULDER = 12"

record ShotDetector =
  wrist_upward_velocity_threshold :: real
  min_wrist_height :: real
  max_wrist_height :: real
  elbow_extension_threshold :: real
  min_confidence :: real
  min_wrist_above_shoulder :: real
  wrist_positions :: "position list"
  elbow_positions :: "position list"
  shoulder_positions :: "position list"
  arm_extension_history :: "real list"
  is_shooting :: bool
  shot_detected :: bool
  frames_since_release :: int
  max_frames_after_release :: int
  shooting_arm :: "string option"

definition ShotDetector_init :: ShotDetector where
  "ShotDetector_init =
     \<lparr>wrist_upward_velocity_threshold = - double 0.012,
      min_wrist_height = double 0.25,
      max_wrist_height = double 0.85,
      elbow_extension_threshold = double 0.08,
      min_confidence = double 0.5,
      min_wrist_above_shoulder = double 0.05,
      wrist_positions = [],
      elbow_positions = [],
      shoulder_positions = [],
      arm_extension_history = [],
      is_shooting = False,
      shot_detected = False,
      frames_since_release = 0,
      max_frames_after_release = 90,
      shooting_arm = None\<rparr>"

definition reset_state :: "ShotDetector \<Rightarrow> ShotDetector" where
  "reset_state d =
     d\<lparr>is_shooting := False, shot_detected := False, frames_since_release := 0,
       wrist_positions := [], elbow_positions := [], shoulder_positions := [],
       arm_extension_history := [], shooting_arm := None\<rparr>"

text \<open>
  One arm of \<open>_get_shooting_arm_landmarks\<close>: the three joints must be present and each
  visibility must exceed \<open>min_confidence\<close>; the positions are the pixel coordinates
  \<^verbatim>\<open>(int(x * width), int(y * height))\<close>, float products truncated.  The source writes
  this block twice, for the right arm and then for the left arm.
\<close>

definition pixel :: "landmark \<Rightarrow> nat \<Rightarrow> nat \<Rightarrow> position" where
  "pixel l height width =
     (py_int (double (double (lm_x l) * double (real width))),
      py_int (double (double (lm_y l) * double (real height))))"

definition arm_landmarks ::
  "ShotDetector \<Rightarrow> landmarks \<Rightarrow> nat \<Rightarrow> nat \<Rightarrow> nat \<Rightarrow> nat \<Rightarrow> nat \<Rightarrow> string
     \<Rightarrow> (position \<times> position \<times> position \<times> string) option" where
  "arm_landmarks d lms wrist_ix elbow_ix shoulder_ix height width side =
     (case lms wrist_ix of
        None \<Rightarrow> None
      | Some wrist \<Rightarrow>
         (case lms elbow_ix of
            None \<Rightarrow> None
          | Some elbow \<Rightarrow>
             (case lms shoulder_ix of
                None \<Rightarrow> None
              | Some shoulder \<Rightarrow>
                  if get_visibility wrist > min_confidence d
                     \<and> get_visibility elbow > min_confidence d
                     \<and> get_visibility shoulder > min_confidence d
                  then Some (pixel wrist height width, pixel elbow height width,
                             pixel shoulder height width, side)
                  else None)))"

definition get_shooting_arm_landmarks ::
  "ShotDetector \<Rightarrow> landmarks \<Rightarrow> nat \<Rightarrow> nat
     \<Rightarrow> (position \<times> position \<times> position \<times> string) option" where
  "get_shooting_arm_landmarks d lms height width =
     (case arm_landmarks d lms RIGHT_WRIST RIGHT_ELBOW RIGHT_SHOULDER height width ''right'' of
        Some found \<Rightarrow> Some found
      | None \<Rightarrow> arm_landmarks d lms LEFT_WRIST LEFT_ELBOW LEFT_SHOULDER height width ''left'')"

text \<open>
  \<open>_calculate_velocity\<close>: the positions are pairs of integers, and \<^verbatim>\<open>dx / dt\<close> on integers
  is the correctly rounded quotient.
\<close>

definition calculate_velocity :: "position list \<Rightarrow> (real \<times> real) option" where
  "calculate_velocity positions =
     (if length positions < 5 then None
      else let dx = fst (last positions) - fst (hd positions);
               dy = snd (last positions) - snd (hd positions);
               dt = int (length positions) - 1
           in if dt = 0 then None
              else Some (double (real_of_int dx / real_of_int dt),
                         double (real_of_int dy / real_of_int dt)))"

text \<open>
  What one call of \<open>process_frame\<close> leaves behind: the detector after the call, whether
  \<open>_trigger_shot\<close> invoked the shot callback, and the exception the call raised, if any
  (the video thread catches it and goes on with the detector as it then is).
\<close>

record outcome =
  detector :: ShotDetector
  fired :: bool
  raised :: "error option"

definition returns :: "ShotDetector \<Rightarrow> outcome" where
  "returns d = \<lparr>detector = d, fired = False, raised = None\<rparr>"

text \<open>Lines 60-64 and 76-80: no pose, or no arm with three confident joints.\<close>

definition landmarks_missing :: "ShotDetector \<Rightarrow> ShotDetector" where
  "landmarks_missing d =
     (if frames_since_release d > max_frames_after_release d then reset_state d
      else d\<lparr>frames_since_release := frames_since_release d + 1\<rparr>)"

text \<open>Lines 144-147: counting frames after the release, and the reset.\<close>

definition after_completion :: "ShotDetector \<Rightarrow> ShotDetector" where
  "after_completion d =
     (if shot_detected d
      then let d' = d\<lparr>frames_since_release := frames_since_release d + 1\<rparr>
           in if frames_since_release d' > max_frames_after_release d' then reset_state d'
              else d'
      else d)"

text \<open>Lines 112-115 and 132-136: the two conditions of the \<^verbatim>\<open>if\<close>/\<^verbatim>\<open>elif\<close>.\<close>

definition release_started :: "ShotDetector \<Rightarrow> real \<Rightarrow> real \<Rightarrow> bool \<Rightarrow> bool" where
  "release_started d vertical_velocity normalized_wrist_y wrist_above_shoulder =
     (\<not> is_shooting d
      \<and> vertical_velocity < wrist_upward_velocity_threshold d
      \<and> min_wrist_height d < normalized_wrist_y \<and> normalized_wrist_y < max_wrist_height d
      \<and> wrist_above_shoulder)"

definition shot_completed :: "ShotDetector \<Rightarrow> real \<Rightarrow> real \<Rightarrow> bool \<Rightarrow> bool" where
  "shot_completed d vertical_velocity normalized_wrist_y wrist_above_shoulder =
     (is_shooting d
      \<and> (vertical_velocity > double 0.005 \<or> normalized_wrist_y > double 0.95
         \<or> normalized_wrist_y < double 0.1 \<or> \<not> wrist_above_shoulder))"

text \<open>Lines 118-128: the arm must be extending; then the detector starts shooting.\<close>

definition check_extension :: "ShotDetector \<Rightarrow> string \<Rightarrow> ShotDetector" where
  "check_extension d arm_side =
     (if length (arm_extension_history d) \<ge> 5
      then let recent_extension = last (arm_extension_history d);
               earlier_extension = hd (arm_extension_history d);
               extension_increase = double (recent_extension - earlier_extension)
           in if extension_increase > elbow_extension_threshold d
              then d\<lparr>is_shooting := True, shot_detected := False,
                     frames_since_release := 0, shooting_arm := Some arm_side\<rparr>
              else d
      else d)"

text \<open>Lines 98-147, on the detector that already holds the positions of this frame.\<close>

definition detect :: "ShotDetector \<Rightarrow> real \<Rightarrow> real \<Rightarrow> string \<Rightarrow> outcome" where
  "detect d normalized_wrist_y normalized_shoulder_y arm_side =
     (if length (wrist_positions d) \<ge> 7
      then (case calculate_velocity (wrist_positions d) of
              None \<Rightarrow> returns d
            | Some wrist_velocity \<Rightarrow>
                let vertical_velocity = snd wrist_velocity;
                    wrist_above_shoulder =
                      (double (normalized_shoulder_y - normalized_wrist_y)
                         > min_wrist_above_shoulder d)
                in if release_started d vertical_velocity normalized_wrist_y
                        wrist_above_shoulder
                   then returns (after_completion (check_extension d arm_side))
                   else if shot_completed d vertical_velocity normalized_wrist_y
                             wrist_above_shoulder
                   then (if \<not> shot_detected d
                         then \<lparr>detector = after_completion (d\<lparr>shot_detected := True\<rparr>),
                               fired = True, raised = None\<rparr>
                         else returns (after_completion d))
                   else returns (after_completion d))
      else returns (after_completion d))"

text \<open>
  Lines 82-96: the positions and the elbow-wrist distance are appended to the four
  deques (each \<open>maxlen = 20\<close>), whichever arm they were taken from; the distance is
  \<^verbatim>\<open>np.sqrt\<close> of an integer sum of squares; the normalized heights are integer rows
  divided by the integer height, and dividing by a height of 0 raises.
\<close>

definition arm_extension_of :: "position \<Rightarrow> position \<Rightarrow> real" where
  "arm_extension_of wrist_pos elbow_pos =
     double (sqrt (double (real_of_int ((fst wrist_pos - fst elbow_pos)\<^sup>2
                                        + (snd wrist_pos - snd elbow_pos)\<^sup>2))))"

definition store_positions ::
  "ShotDetector \<Rightarrow> position \<Rightarrow> position \<Rightarrow> position \<Rightarrow> ShotDetector" where
  "store_positions d wrist_pos elbow_pos shoulder_pos =
     d\<lparr>wrist_positions := deque_append 20 (wrist_positions d) wrist_pos,
       elbow_positions := deque_append 20 (elbow_positions d) elbow_pos,
       shoulder_positions := deque_append 20 (shoulder_positions d) shoulder_pos,
       arm_extension_history :=
         deque_append 20 (arm_extension_history d) (arm_extension_of wrist_pos elbow_pos)\<rparr>"

definition track ::
  "ShotDetector \<Rightarrow> nat \<Rightarrow> position \<Rightarrow> position \<Rightarrow> position \<Rightarrow> string \<Rightarrow> outcome" where
  "track d height wrist_pos elbow_pos shoulder_pos arm_side =
     (let d' = store_positions d wrist_pos elbow_pos shoulder_pos
      in if height = 0
         then \<lparr>detector = d', fired = False, raised = Some ZeroDivisionError\<rparr>
         else let normalized_wrist_y = double (real_of_int (snd wrist_pos) / real height);
                  normalized_shoulder_y = double (real_of_int (snd shoulder_pos) / real height)
              in detect d' normalized_wrist_y normalized_shoulder_y arm_side)"

definition process_frame ::
  "ShotDetector \<Rightarrow> ndarray option \<Rightarrow> landmarks option \<Rightarrow> outcome" where
  "process_frame d frame player_landmarks =
     (case frame of
        None \<Rightarrow> returns d
      | Some fr \<Rightarrow>
         (case player_landmarks of
            None \<Rightarrow> returns (landmarks_missing d)
          | Some lms \<Rightarrow>
             (case get_shooting_arm_landmarks d lms (fst (shape fr)) (snd (shape fr)) of
                None \<Rightarrow> returns (landmarks_missing d)
              | Some (wrist_pos, elbow_pos, shoulder_pos, arm_side) \<Rightarrow>
                  track d (fst (shape fr)) wrist_pos elbow_pos shoulder_pos arm_side)))"

text \<open>The frames of a run, each with the landmarks the pose detector found.\<close>

type_synonym sample = "ndarray option \<times> landmarks option"

fun run_detector :: "ShotDetector \<Rightarrow> sample list \<Rightarrow> outcome list" where
  "run_detector d [] = []"
| "run_detector d (s # ss) =
     (let out = process_frame d (fst s) (snd s)
      in out # run_detector (detector out) ss)"

text \<open>
  The states of the specification, read off the two flags: idle while \<open>is_shooting\<close> is
  false, armed once it is true, in cooldown once \<open>shot_detected\<close> is set as well.
\<close>

datatype DetectorState = Idle | Armed | Cooldown

definition detector_state :: "ShotDetector \<Rightarrow> DetectorState" where
  "detector_state d =
     (if \<not> is_shooting d then Idle else if shot_detected d then Cooldown else Armed)"

text \<open>The detector after a run.\<close>

fun detector_after :: "ShotDetector \<Rightarrow> sample list \<Rightarrow> ShotDetector" where
  "detector_after d [] = d"
| "detector_after d (s # ss) = detector_after (detector (process_frame d (fst s) (snd s))) ss"

text \<open>
  An episode runs from the frame that sets \<open>is_shooting\<close> to the next \<open>reset_state\<close>, the
  only place that clears the flag.  \<open>episode_emissions d ss\<close> counts the invocations of the
  shot callback over the samples \<open>ss\<close> up to and including the frame after which
  \<open>is_shooting\<close> is false again.
\<close>

fun episode_emissions :: "ShotDetector \<Rightarrow> sample list \<Rightarrow> nat" where
  "episode_emissions d [] = 0"
| "episode_emissions d (s # ss) =
     (let out = process_frame d (fst s) (snd s)
      in (if fired out then 1 else 0)
         + (if is_shooting (detector out) then episode_emissions (detector out) ss else 0))"




text \<open>
  The quantities lines 95-109 compute from the detector that holds the positions of the
  current frame: the windowed vertical wrist velocity (newest minus oldest wrist row in
  the deque over the number of steps between them), and the normalized heights.
\<close>

definition vertical_velocity_of :: "ShotDetector \<Rightarrow> real" where
  "vertical_velocity_of d =
     double (real_of_int (snd (last (wrist_positions d)) - snd (hd (wrist_positions d)))
               / real_of_int (int (length (wrist_positions d)) - 1))"

definition normalized_y :: "position \<Rightarrow> nat \<Rightarrow> real" where
  "normalized_y pos height = double (real_of_int (snd pos) / real height)"

section \<open>gui/main\_window.py: the shot callback\<close>

text \<open>
  \<open>MainWindow.on_shot_detected\<close> is the detector's \<open>shot_callback\<close>.  Of the window only
  the session flag, the shot counter and the recorder matter; the single-shot timer that
  later calls \<open>process_shot\<close> is not part of the state.
\<close>

record 'f MainWindow =
  session_is_active :: bool
  current_shot_number :: int
  video_recorder :: "'f VideoRecorder"

definition on_shot_detected :: "'f MainWindow \<Rightarrow> 'f MainWindow" where
  "on_shot_detected w =
     (if \<not> session_is_active w then w
      else w\<lparr>current_shot_number := current_shot_number w + 1,
             video_recorder := start_recording (video_recorder w)\<rparr>)"

section \<open>Sample inputs\<close>

text \<open>
  A 100 x 100 frame and a pose whose right arm has the given visibility, with the wrist,
  elbow and shoulder at the given normalized heights.  In \<open>rising_wrist\<close> the arm is well
  visible and the wrist rises from 0.60 to 0.40 over seven frames while the elbow (0.65)
  and the shoulder (0.70) stay.  \<open>tracking_detector\<close> and \<open>armed_detector\<close> are the
  detector after the first six and after all seven of these frames (the second wrist row
  is 57, the float product 0.58 * 100 being just below 58).  In \<open>still_scene\<close> nobody moves:
  both arms keep their coordinates over all seven frames, the left wrist hanging at 0.60
  and the right wrist held at 0.40; only the visibility of the right arm changes, from
  0.3 on the first six frames to 0.9 on the seventh.  \<open>holding\<close> is a fresh detector
  that holds the given histories, \<open>left_held n\<close> the one that holds \<open>n\<close> times the
  positions of the left arm of \<open>both_arms\<close>.
\<close>

definition frame_100 :: ndarray where
  "frame_100 = \<lparr>shape = (100, 100)\<rparr>"

definition pose :: "real \<Rightarrow> real \<Rightarrow> real \<Rightarrow> real \<Rightarrow> landmarks" where
  "pose v wrist_y elbow_y shoulder_y =
     [RIGHT_WRIST \<mapsto> \<lparr>lm_x = 0.5, lm_y = wrist_y, lm_visibility = Some v\<rparr>,
      RIGHT_ELBOW \<mapsto> \<lparr>lm_x = 0.5, lm_y = elbow_y, lm_visibility = Some v\<rparr>,
      RIGHT_SHOULDER \<mapsto> \<lparr>lm_x = 0.5, lm_y = shoulder_y, lm_visibility = Some v\<rparr>]"

definition wrist_at :: "real \<Rightarrow> sample" where
  "wrist_at wrist_y = (Some frame_100, Some (pose 0.9 wrist_y 0.65 0.7))"

definition rising_wrist :: "sample list" where
  "rising_wrist = map wrist_at [0.60, 0.58, 0.55, 0.52, 0.48, 0.44, 0.40]"

definition both_arms :: "real \<Rightarrow> landmarks" where
  "both_arms v =
     [LEFT_WRIST \<mapsto> \<lparr>lm_x = 0.25, lm_y = 0.6, lm_visibility = Some 0.9\<rparr>,
      LEFT_ELBOW \<mapsto> \<lparr>lm_x = 0.25, lm_y = 0.65, lm_visibility = Some 0.9\<rparr>,
      LEFT_SHOULDER \<mapsto> \<lparr>lm_x = 0.25, lm_y = 0.7, lm_visibility = Some 0.9\<rparr>,
      RIGHT_WRIST \<mapsto> \<lparr>lm_x = 0.75, lm_y = 0.4, lm_visibility = Some v\<rparr>,
      RIGHT_ELBOW \<mapsto> \<lparr>lm_x = 0.75, lm_y = 0.65, lm_visibility = Some v\<rparr>,
      RIGHT_SHOULDER \<mapsto> \<lparr>lm_x = 0.75, lm_y = 0.7, lm_visibility = Some v\<rparr>]"


definition holding ::
  "position list \<Rightarrow> position list \<Rightarrow> position list \<Rightarrow> real list \<Rightarrow> ShotDetector" where
  "holding wrists elbows shoulders extensions =
     ShotDetector_init
       \<lparr>wrist_positions := wrists, elbow_positions := elbows,
        shoulder_positions := shoulders, arm_extension_history := extensions\<rparr>"


definition tracking_detector :: ShotDetector where
  "tracking_detector =
     ShotDetector_init
       \<lparr>wrist_positions := [(50, 60), (50, 57), (50, 55), (50, 52), (50, 48), (50, 44)],
        elbow_positions := [(50, 65), (50, 65), (50, 65), (50, 65), (50, 65), (50, 65)],
        shoulder_positions := [(50, 70), (50, 70), (50, 70), (50, 70), (50, 70), (50, 70)],
        arm_extension_history := [5, 8, 10, 13, 17, 21]\<rparr>"

definition armed_detector :: ShotDetector where
  "armed_detector =
     ShotDetector_init
       \<lparr>wrist_positions :=
          [(50, 60), (50, 57), (50, 55), (50, 52), (50, 48), (50, 44), (50, 40)],
        elbow_positions :=
          [(50, 65), (50, 65), (50, 65), (50, 65), (50, 65), (50, 65), (50, 65)],
        shoulder_positions :=
          [(50, 70), (50, 70), (50, 70), (50, 70), (50, 70), (50, 70), (50, 70)],
        arm_extension_history := [5, 8, 10, 13, 17, 21, 25],
        is_shooting := True,
        shooting_arm := Some ''right''\<rparr>"

section \<open>storage/metadata\_manager.py: MetadataManager\<close>

text \<open>
  The session file \<^verbatim>\<open>session_<id>.json\<close> holds one metadata dictionary; the directory of
  session files is a map from session id to that dictionary.  \<^verbatim>\<open>datetime.now()\<close> is an
  argument.
\<close>

record shot_data =
  shot_number :: int
  timestamp :: string
  shot_made :: bool
  video_path :: string
  critique :: string

record session_metadata =
  session_id :: string
  start_time :: string
  end_time :: "string option"
  total_shots :: int
  shots_made :: int
  shots_missed :: int
  shots :: "shot_data list"
  summary :: "string option"

type_synonym session_files = "string \<rightharpoonup> session_metadata"

definition create_session_metadata :: "string \<Rightarrow> string \<Rightarrow> session_metadata" where
  "create_session_metadata sid now =
     \<lparr>session_id = sid, start_time = now, end_time = None, total_shots = 0,
      shots_made = 0, shots_missed = 0, shots = [], summary = None\<rparr>"

definition save_session_metadata ::
  "session_files \<Rightarrow> string \<Rightarrow> session_metadata \<Rightarrow> session_files" where
  "save_session_metadata files sid metadata = files(sid \<mapsto> metadata)"

definition load_session_metadata :: "session_files \<Rightarrow> string \<Rightarrow> session_metadata option" where
  "load_session_metadata files sid = files sid"

definition add_shot_metadata ::
  "session_files \<Rightarrow> string \<Rightarrow> string \<Rightarrow> int \<Rightarrow> bool \<Rightarrow> string \<Rightarrow> string \<Rightarrow> session_files" where
  "add_shot_metadata files now sid number made path text =
     (let metadata = (case load_session_metadata files sid of
                        None \<Rightarrow> create_session_metadata sid now
                      | Some m \<Rightarrow> m);
          shot = \<lparr>shot_number = number, timestamp = now, shot_made = made,
                  video_path = path, critique = text\<rparr>;
          metadata = metadata\<lparr>shots := shots metadata @ [shot]\<rparr>;
          metadata = metadata\<lparr>total_shots := int (length (shots metadata))\<rparr>;
          metadata = metadata\<lparr>shots_made :=
                       sum_list (map (\<lambda>s. 1) (filter shot_made (shots metadata)))\<rparr>;
          metadata = metadata\<lparr>shots_missed := total_shots metadata - shots_made metadata\<rparr>
      in save_session_metadata files sid metadata)"

section \<open>storage/video\_storage.py: VideoStorage\<close>

text \<open>
  \<^verbatim>\<open>f"{n:03d}"\<close>: the decimal digits, padded with zeros to three characters, the sign
  of a negative number counting as one of them.
\<close>

fun digits :: "nat \<Rightarrow> string" where
  "digits n =
     (if n < 10 then [char_of (48 + n)] else digits (n div 10) @ [char_of (48 + n mod 10)])"

definition zero_padded :: "nat \<Rightarrow> string \<Rightarrow> string" where
  "zero_padded w s = replicate (w - length s) (CHR ''0'') @ s"

definition format_03d :: "int \<Rightarrow> string" where
  "format_03d n =
     (if n < 0 then CHR ''-'' # zero_padded 2 (digits (nat (- n)))
      else zero_padded 3 (digits (nat n)))"

text \<open>
  A path segment joined to a \<^verbatim>\<open>pathlib.Path\<close> with \<^verbatim>\<open>/\<close> is split at the slashes, and
  its empty parts and its parts \<^verbatim>\<open>.\<close> are dropped (POSIX paths; the segments here never
  start with a slash).
\<close>

fun split_slash :: "string \<Rightarrow> string list" where
  "split_slash [] = [[]]"
| "split_slash (c # cs) =
     (if c = CHR ''/'' then [] # split_slash cs
      else (case split_slash cs of
              [] \<Rightarrow> [[c]]
            | part # parts \<Rightarrow> (c # part) # parts))"

definition path_parts :: "string \<Rightarrow> string list" where
  "path_parts segment = filter (\<lambda>part. part \<noteq> [] \<and> part \<noteq> ''.'') (split_slash segment)"

definition join_path :: "string \<Rightarrow> string list \<Rightarrow> string" where
  "join_path base parts = foldl (\<lambda>path part. path @ ''/'' @ part) base parts"

text \<open>
  \<open>get_shot_video_path\<close> with the default base path \<^verbatim>\<open>data/videos\<close>, as the string of
  the path it returns; the directory it creates on the way is not part of the model.
\<close>

definition get_shot_video_path :: "string \<Rightarrow> int \<Rightarrow> bool \<Rightarrow> bool \<Rightarrow> string" where
  "get_shot_video_path sid number made with_critique =
     (let session_dir = join_path ''data/videos'' (path_parts (''session_'' @ sid));
          result = (if made then ''made'' else ''missed'');
          suffix = (if with_critique then ''_with_critique'' else []);
          filename = ''shot_'' @ format_03d number @ ''_'' @ result @ suffix @ ''.mp4''
      in join_path session_dir (path_parts filename))"

section \<open>The collaborators of the analysis\<close>

text \<open>
  What the world outside the orchestrator answers: whether \<^verbatim>\<open>cv2.VideoWriter\<close> opens the
  file at a path; what the Gemini service does with a clip and a prompt, either the text of
  its response (\<open>Inr\<close>) or the message of the exception that upload, polling or generation
  raises (\<open>Inl\<close>); whether \<^verbatim>\<open>shutil.move\<close> and the write of the session file raise
  (\<open>Some\<close> message); whether FFmpeg renders the overlay; and the clock.  The two prompts are
  kept apart by a tag; the critique prompt names the outcome.
\<close>

datatype prompt = ShotResultPrompt | ShotCritiquePrompt bool

record collaborators =
  video_writer_opens :: "string \<Rightarrow> bool"
  genai_generate_content :: "string \<Rightarrow> prompt \<Rightarrow> string + string"
  shutil_move :: "string \<Rightarrow> string \<Rightarrow> string option"
  add_text_overlay :: "string \<Rightarrow> string \<Rightarrow> string \<Rightarrow> bool"
  metadata_write_error :: "string \<Rightarrow> string option"
  datetime_now :: string

text \<open>\<open>VideoStorage.save_video\<close>: no frames or a writer that does not open give False.\<close>

definition save_video :: "collaborators \<Rightarrow> string \<Rightarrow> 'f list \<Rightarrow> nat \<Rightarrow> nat \<Rightarrow> bool" where
  "save_video env path frames width height =
     (if frames = [] then False
      else if \<not> video_writer_opens env path then False
      else True)"

section \<open>ai/gemini\_client.py: GeminiClient\<close>

text \<open>
  \<open>GeminiClient.analyze_video\<close> wraps its whole body in \<^verbatim>\<open>try\<close> / \<^verbatim>\<open>except Exception\<close>:
  it returns the response text, or for any exception of the service the string
  \<^verbatim>\<open>"Error analyzing video: ..."\<close> with the message.  It never raises: its result is
  always an \<open>Inr\<close>.  The result type is that of a client call as \<open>CritiqueGenerator\<close> sees
  it, \<open>Inl\<close> being an exception raised by the client.
\<close>

type_synonym client = "string \<Rightarrow> prompt \<Rightarrow> string + string"

definition GeminiClient_analyze_video :: "collaborators \<Rightarrow> client" where
  "GeminiClient_analyze_video env path p =
     (case genai_generate_content env path p of
        Inl e \<Rightarrow> Inr (''Error analyzing video: '' @ e)
      | Inr response_text \<Rightarrow> Inr response_text)"

section \<open>ai/critique\_generator.py: CritiqueGenerator\<close>

text \<open>
  \<^verbatim>\<open>response.strip().upper()\<close> and \<^verbatim>\<open>needle in text\<close> on ASCII strings.
\<close>

definition py_isspace :: "char \<Rightarrow> bool" where
  "py_isspace c = (c \<in> set [CHR '' '', CHR 0x09, CHR 0x0A, CHR 0x0B, CHR 0x0C, CHR 0x0D,
                              CHR 0x1C, CHR 0x1D, CHR 0x1E, CHR 0x1F])"

definition py_strip :: "string \<Rightarrow> string" where
  "py_strip s = rev (dropWhile py_isspace (rev (dropWhile py_isspace s)))"

definition py_upper :: "string \<Rightarrow> string" where
  "py_upper s =
     map (\<lambda>c. if 97 \<le> (of_char c :: nat) \<and> (of_char c :: nat) \<le> 122
              then char_of ((of_char c :: nat) - 32) else c) s"

fun py_in :: "string \<Rightarrow> string \<Rightarrow> bool" where
  "py_in needle [] = (needle = [])"
| "py_in needle (c # cs) = (take (length needle) (c # cs) = needle \<or> py_in needle cs)"

text \<open>
  \<open>determine_shot_result\<close> and \<open>generate_shot_critique\<close> on the generator's client; the
  first catches what the client raises, the second lets it pass.
\<close>

definition determine_shot_result :: "client \<Rightarrow> string \<Rightarrow> bool" where
  "determine_shot_result analyze_video path =
     (case analyze_video path ShotResultPrompt of
        Inl e \<Rightarrow> False
      | Inr response \<Rightarrow>
          let response_upper = py_upper (py_strip response)
          in if py_in ''MADE'' response_upper \<and> \<not> py_in ''MISSED'' response_upper then True
             else if py_in ''MISSED'' response_upper then False
             else False)"

definition generate_shot_critique :: "client \<Rightarrow> string \<Rightarrow> bool \<Rightarrow> string + string" where
  "generate_shot_critique analyze_video path made =
     analyze_video path (ShotCritiquePrompt made)"

section \<open>session/shot\_analyzer.py: ShotAnalyzer\<close>

text \<open>
  The generator of the analyzer is built on the repository's \<open>GeminiClient\<close>.  The state
  the analysis works on is the directory of session files together with a trace: the calls
  made to the collaborators and the invocations of the completion callback, in order.  A callback invocation carries the shot number, the outcome
  (\<open>None\<close> for Python's \<^verbatim>\<open>None\<close>), the feedback text and the clip path.
\<close>

datatype stage =
    PersistRaw string
  | DetermineOutcome string
  | Relocate string string
  | GenerateFeedback string bool
  | RenderOverlay string string string
  | PersistRecord int bool string string
  | Callback int "bool option" string "string option"

record world =
  metadata_files :: session_files
  trace :: "stage list"

definition logged :: "world \<Rightarrow> stage \<Rightarrow> world" where
  "logged w st = w\<lparr>trace := trace w @ [st]\<rparr>"

fun is_callback :: "stage \<Rightarrow> bool" where
  "is_callback (Callback n made text path) = True"
| "is_callback st = False"

text \<open>The \<^verbatim>\<open>except Exception as e\<close> handler of \<open>_analyze_shot_sync\<close>.\<close>

definition report_error :: "bool \<Rightarrow> world \<Rightarrow> int \<Rightarrow> bool option \<Rightarrow> string \<Rightarrow> world" where
  "report_error has_callback w number made message =
     (if has_callback then logged w (Callback number made (''Error: '' @ message) None)
      else w)"

text \<open>
  Step 2: the outcome is asked for only when none was given; a changed outcome moves the
  clip.  The result is the outcome and the clip path, or the message of the exception
  together with the value \<open>shot_made\<close> has at that point.
\<close>

definition determine_stage ::
  "collaborators \<Rightarrow> world \<Rightarrow> string \<Rightarrow> int \<Rightarrow> bool option \<Rightarrow> bool \<Rightarrow> string
     \<Rightarrow> (world \<times> bool option \<times> string) + (world \<times> bool \<times> string)" where
  "determine_stage env w sid number shot_made_arg temp_shot_made initial_video_path =
     (case shot_made_arg of
        Some made \<Rightarrow> Inr (w, made, initial_video_path)
      | None \<Rightarrow>
          let made = determine_shot_result (GeminiClient_analyze_video env) initial_video_path;
              w = logged w (DetermineOutcome initial_video_path)
          in if made \<noteq> temp_shot_made
             then let correct_video_path = get_shot_video_path sid number made False
                  in (case shutil_move env initial_video_path correct_video_path of
                        Some message \<Rightarrow>
                          Inl (logged w (Relocate initial_video_path correct_video_path),
                               Some made, message)
                      | None \<Rightarrow>
                          Inr (logged w (Relocate initial_video_path correct_video_path),
                               made, correct_video_path))
             else Inr (w, made, initial_video_path))"

text \<open>
  Steps 3 to 6 on the determined outcome: critique, overlay with the fallback to the plain
  clip, the shot record, the completion callback.
\<close>

definition finish_stage ::
  "collaborators \<Rightarrow> bool \<Rightarrow> world \<Rightarrow> string \<Rightarrow> int \<Rightarrow> bool \<Rightarrow> string \<Rightarrow> world" where
  "finish_stage env has_callback w sid number made initial_video_path =
     (let w = logged w (GenerateFeedback initial_video_path made)
      in case generate_shot_critique (GeminiClient_analyze_video env) initial_video_path made of
           Inl message \<Rightarrow> report_error has_callback w number (Some made) message
         | Inr text \<Rightarrow>
             let with_overlay = get_shot_video_path sid number made True;
                 w = logged w (RenderOverlay initial_video_path with_overlay text);
                 final_video_path =
                   (if \<not> add_text_overlay env initial_video_path with_overlay text
                    then initial_video_path else with_overlay);
                 w = logged w (PersistRecord number made final_video_path text)
             in (case metadata_write_error env sid of
                   Some message \<Rightarrow> report_error has_callback w number (Some made) message
                 | None \<Rightarrow>
                     let w = w\<lparr>metadata_files :=
                                 add_shot_metadata (metadata_files w) (datetime_now env) sid
                                   number made final_video_path text\<rparr>
                     in if has_callback
                        then logged w (Callback number (Some made) text (Some final_video_path))
                        else w))"

text \<open>
  \<open>_analyze_shot_sync\<close>, the body of the thread \<open>analyze_shot\<close> starts; \<open>has_callback\<close>
  says whether \<open>analysis_callback\<close> is set, \<open>shot_made_arg\<close> is the parameter
  \<open>shot_made\<close>.
\<close>

definition analyze_shot_sync ::
  "collaborators \<Rightarrow> bool \<Rightarrow> world \<Rightarrow> string \<Rightarrow> int \<Rightarrow> 'f list \<Rightarrow> nat \<Rightarrow> nat \<Rightarrow> bool option
     \<Rightarrow> world" where
  "analyze_shot_sync env has_callback w sid number frames width height shot_made_arg =
     (let temp_shot_made = (case shot_made_arg of None \<Rightarrow> False | Some made \<Rightarrow> made);
          initial_video_path = get_shot_video_path sid number temp_shot_made False;
          w = logged w (PersistRaw initial_video_path)
      in if \<not> save_video env initial_video_path frames width height then w
         else (case determine_stage env w sid number shot_made_arg temp_shot_made
                      initial_video_path of
                 Inl (w, made, message) \<Rightarrow> report_error has_callback w number made message
               | Inr (w, made, clip_path) \<Rightarrow>
                   finish_stage env has_callback w sid number made clip_path))"

text \<open>
  Collaborators for the examples.  With \<open>failing_classifier\<close> every writer opens, the
  service raises on the outcome question and answers the critique question;
  \<open>closed_writer\<close> differs only in that no video writer opens; with \<open>refused_connection\<close>
  the service raises on every question the error of a refused connection, whose message
  is the one Windows gives.
\<close>

definition failing_classifier :: collaborators where
  "failing_classifier =
     \<lparr>video_writer_opens = (\<lambda>path. True),
      genai_generate_content =
        (\<lambda>path p. case p of ShotResultPrompt \<Rightarrow> Inl ''timeout''
                   | ShotCritiquePrompt made \<Rightarrow> Inr ''Elbow in.''),
      shutil_move = (\<lambda>src dst. None),
      add_text_overlay = (\<lambda>src dst text. True),
      metadata_write_error = (\<lambda>sid. None),
      datetime_now = ''2025-01-01T00:00:00''\<rparr>"

definition closed_writer :: collaborators where
  "closed_writer = failing_classifier\<lparr>video_writer_opens := (\<lambda>path. False)\<rparr>"

definition refused_message :: string where
  "refused_message =
     ''[WinError 10061] No connection could be made because the target machine actively refused it''"

definition refused_connection :: collaborators where
  "refused_connection =
     failing_classifier\<lparr>genai_generate_content := (\<lambda>path p. Inl refused_message)\<rparr>"

definition no_sessions :: world where
  "no_sessions = \<lparr>metadata_files = Map.empty, trace = []\<rparr>"

section \<open>Properties of the arithmetic\<close>

lemma double_zero [simp]: "double 0 = 0"
  by (simp add: double_def)

text \<open>
  The double nearest to a number between two powers of two, for numbers of magnitude at
  least one and for numbers of magnitude below two.
\<close>

lemma double_up:
  assumes "2 ^ n \<le> \<bar>x\<bar>" "\<bar>x\<bar> < 2 * 2 ^ n"
  shows "double x = of_int (round_half_even (x * 2 ^ 52 / 2 ^ n)) * 2 ^ n / 2 ^ 52"
proof -
  have pos: "0 < \<bar>x\<bar>"
    using assms(1) by (smt (verit) zero_less_power)
  have "(2::real) powr (of_int (int n)) \<le> \<bar>x\<bar> \<and> \<bar>x\<bar> < 2 powr (of_int (int n + 1))"
    using assms by (simp add: powr_realpow powr_add)
  then have e: "\<lfloor>log 2 \<bar>x\<bar>\<rfloor> = int n"
    using floor_log_eq_powr_iff [of "\<bar>x\<bar>" 2 "int n"] pos by simp
  have p1: "(2::real) powr (52 - real n) = 2 ^ 52 / 2 ^ n"
    by (simp add: powr_diff powr_realpow)
  have p2: "(2::real) powr (real n - 52) = 2 ^ n / 2 ^ 52"
    by (simp add: powr_diff powr_realpow)
  from pos have "x \<noteq> 0" by auto
  then show ?thesis
    by (simp add: double_def e p1 p2 Let_def)
qed

lemma double_down:
  assumes "1 \<le> \<bar>x\<bar> * 2 ^ n" "\<bar>x\<bar> * 2 ^ n < 2"
  shows "double x = of_int (round_half_even (x * (2 ^ 52 * 2 ^ n))) / (2 ^ 52 * 2 ^ n)"
proof -
  have nz: "x \<noteq> 0"
    using assms(1) by (cases "x = 0") simp_all
  then have pos: "0 < \<bar>x\<bar>" by simp
  have a: "(2::real) powr (- real n) = 1 / 2 ^ n"
    by (simp add: powr_minus powr_realpow inverse_eq_divide)
  have "(2::real) powr (- real n + 1) = 2 powr (- real n) * 2 powr 1"
    by (rule powr_add)
  then have b: "(2::real) powr (- real n + 1) = 2 / 2 ^ n"
    by (simp only: a) simp
  have lo: "1 / 2 ^ n \<le> \<bar>x\<bar>"
    using assms(1) by (simp add: pos_divide_le_eq)
  have hi: "\<bar>x\<bar> < 2 / 2 ^ n"
    using assms(2) by (simp add: pos_less_divide_eq)
  have "(2::real) powr (of_int (- int n)) \<le> \<bar>x\<bar>
        \<and> \<bar>x\<bar> < 2 powr (of_int (- int n + 1))"
    using lo hi a b by simp
  then have e: "\<lfloor>log 2 \<bar>x\<bar>\<rfloor> = - int n"
    using floor_log_eq_powr_iff [of "\<bar>x\<bar>" 2 "- int n"] pos by simp
  have p1: "(2::real) powr (52 + real n) = 2 ^ 52 * 2 ^ n"
    using powr_realpow [of "2::real" "52 + n"] by (simp add: power_add)
  have neg: "- real n - 52 = - (52 + real n)"
    by linarith
  have "(2::real) powr (- real n - 52) = 2 powr (- (52 + real n))"
    by (simp only: neg)
  also have "\<dots> = inverse (2 powr (52 + real n))"
    by (rule powr_minus)
  finally have p2: "(2::real) powr (- real n - 52) = 1 / (2 ^ 52 * 2 ^ n)"
    by (simp only: p1 inverse_eq_divide)
  have "double x = of_int (round_half_even (x * 2 powr (52 + real n))) * 2 powr (- real n - 52)"
    using nz by (simp add: double_def e Let_def)
  then show ?thesis
    by (simp only: p1 p2 times_divide_eq_right mult_1_right)
qed

text \<open>
  With these instances the simplifier computes the double nearest to a numeral of
  magnitude from 1/512 up to 4096.
\<close>

lemmas double_eval =
  round_half_even_def Let_def
  double_up [where n = 0] double_up [where n = 1] double_up [where n = 2]
  double_up [where n = 3] double_up [where n = 4] double_up [where n = 5]
  double_up [where n = 6] double_up [where n = 7] double_up [where n = 8]
  double_up [where n = 9] double_up [where n = 10] double_up [where n = 11]
  double_down [where n = 1] double_down [where n = 2] double_down [where n = 3]
  double_down [where n = 4] double_down [where n = 5] double_down [where n = 6]
  double_down [where n = 7] double_down [where n = 8] double_down [where n = 9]

section \<open>Properties of the recorder\<close>

lemma length_deque_append:
  "int (length d) \<le> maxlen \<Longrightarrow> int (length (deque_append maxlen d x)) \<le> maxlen"
  by (simp add: deque_append_def Let_def)

lemma deque_append_full:
  "int (length d) = maxlen \<Longrightarrow> deque_append maxlen d x = tl (d @ [x])"
  by (simp add: deque_append_def Let_def)

lemma deque_append_room:
  "int (length d) < maxlen \<Longrightarrow> deque_append maxlen d x = d @ [x]"
  by (simp add: deque_append_def Let_def)

lemma recorder_step_buffer_size [simp]:
  "buffer_size (recorder_step r c) = buffer_size r"
  by (cases c)
     (simp_all add: add_frame_def start_recording_def add_recording_frame_def
        stop_recording_def split: option.split)

lemma recorder_step_bounded:
  "int (length (frame_buffer r)) \<le> buffer_size r \<Longrightarrow>
   int (length (frame_buffer (recorder_step r c))) \<le> buffer_size r"
  by (cases c)
     (simp_all add: add_frame_def start_recording_def add_recording_frame_def
        stop_recording_def length_deque_append split: option.split)

lemma foldl_recorder_step_bounded:
  "int (length (frame_buffer r)) \<le> buffer_size r \<Longrightarrow>
   int (length (frame_buffer (foldl recorder_step r cs))) \<le> buffer_size r
   \<and> buffer_size (foldl recorder_step r cs) = buffer_size r"
proof (induction cs arbitrary: r)
  case Nil
  then show ?case by simp
next
  case (Cons c cs)
  have "int (length (frame_buffer (recorder_step r c))) \<le> buffer_size (recorder_step r c)"
    using Cons.prems by (simp add: recorder_step_bounded)
  from Cons.IH [OF this] show ?case by simp
qed

lemma foldl_add_frame_room:
  "int (length (frame_buffer r)) + int (length fs) \<le> buffer_size r \<Longrightarrow>
   foldl add_frame r (map Some fs) = r\<lparr>frame_buffer := frame_buffer r @ fs\<rparr>"
proof (induction fs arbitrary: r)
  case Nil
  then show ?case by simp
next
  case (Cons f fs)
  have step: "add_frame r (Some f) = r\<lparr>frame_buffer := frame_buffer r @ [f]\<rparr>"
    using Cons.prems by (simp add: add_frame_def deque_append_room)
  have "int (length (frame_buffer (add_frame r (Some f)))) + int (length fs)
          \<le> buffer_size (add_frame r (Some f))"
    using Cons.prems by (simp add: step)
  from Cons.IH [OF this] show ?case by (simp add: step)
qed

lemma foldl_add_recording_frame:
  "is_recording r \<Longrightarrow>
   foldl add_recording_frame r (map Some fs) =
     r\<lparr>current_video_frames := current_video_frames r @ fs\<rparr>"
proof (induction fs arbitrary: r)
  case Nil
  then show ?case by simp
next
  case (Cons f fs)
  have step: "add_recording_frame r (Some f) =
                r\<lparr>current_video_frames := current_video_frames r @ [f]\<rparr>"
    using Cons.prems by (simp add: add_recording_frame_def)
  have "is_recording (add_recording_frame r (Some f))"
    using Cons.prems by (simp add: step)
  from Cons.IH [OF this] show ?case by (simp add: step)
qed

lemma recording_returns:
  "snd (stop_recording (foldl add_recording_frame (start_recording r) (map Some fs)))
     = frame_buffer r @ fs"
proof -
  have "is_recording (start_recording r)"
    by (simp add: start_recording_def)
  then show ?thesis
    by (simp add: foldl_add_recording_frame stop_recording_def start_recording_def)
qed

text \<open>
  C4.  After \<open>start_recording\<close>, appending the frames \<open>fs\<close> with \<open>add_recording_frame\<close>
  and calling \<open>stop_recording\<close> returns the ring contents at start time followed by
  \<open>fs\<close>, in order; with no appended frame it returns exactly that snapshot; and for the
  recorder built with 3.0 seconds at 30 fps, after 90 observed frames \<open>pre\<close> and 30
  appended frames \<open>post\<close> the returned list has 120 frames, the first 90 being \<open>pre\<close>.
\<close>

theorem stop_recording_returns_snapshot_then_appended:
  "snd (stop_recording (foldl add_recording_frame (start_recording r) (map Some fs)))
     = frame_buffer r @ fs
   \<and> snd (stop_recording (start_recording r)) = frame_buffer r
   \<and> (VideoRecorder_init 3 30 = Inr r0 \<and> length pre = 90 \<and> length post = 30 \<longrightarrow>
        (let r1 = foldl add_frame r0 (map Some pre);
             out = snd (stop_recording
                     (foldl add_recording_frame (start_recording r1) (map Some post)))
         in buffer_size r0 = 90 \<and> frame_buffer r1 = pre \<and> length out = 120
            \<and> take 90 out = pre \<and> out = pre @ post))"
proof (intro conjI impI)
  show "snd (stop_recording (foldl add_recording_frame (start_recording r) (map Some fs)))
          = frame_buffer r @ fs"
    by (rule recording_returns)
  show "snd (stop_recording (start_recording r)) = frame_buffer r"
    using recording_returns [of r "[]"] by simp
next
  assume a: "VideoRecorder_init 3 30 = Inr r0 \<and> length pre = 90 \<and> length post = 30"
  then have r0: "r0 = \<lparr>buffer_seconds = 3, fps = 30, buffer_size = 90,
                         frame_buffer = [], is_recording = False,
                         current_video_frames = []\<rparr>"
    by (simp add: VideoRecorder_init_def py_int_def double_eval)
  have "int (length (frame_buffer r0)) + int (length pre) \<le> buffer_size r0"
    using a by (simp add: r0)
  then have r1: "foldl add_frame r0 (map Some pre) = r0\<lparr>frame_buffer := pre\<rparr>"
    by (simp add: foldl_add_frame_room r0)
  show "let r1 = foldl add_frame r0 (map Some pre);
            out = snd (stop_recording
                    (foldl add_recording_frame (start_recording r1) (map Some post)))
        in buffer_size r0 = 90 \<and> frame_buffer r1 = pre \<and> length out = 120
           \<and> take 90 out = pre \<and> out = pre @ post"
    using a by (simp add: Let_def r1 recording_returns) (simp add: r0)
qed

theorem stop_recording_returns_snapshot_then_appended_witness:
  "VideoRecorder_init 3 30 =
     Inr \<lparr>buffer_seconds = 3, fps = 30, buffer_size = 90, frame_buffer = ([] :: nat list),
          is_recording = False, current_video_frames = []\<rparr>
   \<and> length [0..<90] = 90 \<and> length [90..<120] = 30
   \<and> snd (stop_recording (foldl add_recording_frame
        (start_recording (foldl add_frame
           \<lparr>buffer_seconds = 3, fps = 30, buffer_size = 90, frame_buffer = [],
            is_recording = False, current_video_frames = []\<rparr> (map Some [0..<90])))
        (map Some [90..<120]))) = [0..<90] @ [90..<120]"
proof -
  let ?r0 = "\<lparr>buffer_seconds = 3, fps = 30, buffer_size = 90, frame_buffer = ([] :: nat list),
              is_recording = False, current_video_frames = []\<rparr>"
  have h: "VideoRecorder_init 3 30 = Inr ?r0 \<and> length [0..<90] = 90 \<and> length [90..<120] = 30"
    by (simp add: VideoRecorder_init_def py_int_def double_eval)
  from stop_recording_returns_snapshot_then_appended
         [of ?r0 "[]" ?r0 "[0..<90]" "[90..<120]"] h
  show ?thesis by (simp add: Let_def)
qed

text \<open>
  The capacity follows the float product: 0.7 seconds at 30 frames per second give 21
  frames, the product of the double nearest to 0.7 and 30 rounding to 21.
\<close>

lemma capacity_of_float_product:
  "map_sum id buffer_size (VideoRecorder_init (7 / 10) 30 :: error + nat VideoRecorder) = Inr 21"
  by (simp add: VideoRecorder_init_def py_int_def double_eval)

text \<open>
  C5.  On a recorder built by \<open>__init__\<close>, after any sequence of calls the ring holds at
  most \<open>buffer_size = int(buffer_seconds * fps)\<close> frames, the product being the float
  product; \<open>add_frame\<close> on a ring at capacity drops the oldest frame (the head) and puts
  the new one last, and below capacity it only appends.
\<close>

theorem ring_never_exceeds_capacity:
  "VideoRecorder_init secs rate = Inr r0 \<Longrightarrow> r = foldl recorder_step r0 cs \<Longrightarrow>
   buffer_size r = py_int (double (double secs * double (real_of_int rate)))
   \<and> int (length (frame_buffer r))
        \<le> py_int (double (double secs * double (real_of_int rate)))
   \<and> (int (length (frame_buffer r)) = buffer_size r \<longrightarrow>
        frame_buffer (add_frame r (Some f)) = tl (frame_buffer r @ [f]))
   \<and> (int (length (frame_buffer r)) < buffer_size r \<longrightarrow>
        frame_buffer (add_frame r (Some f)) = frame_buffer r @ [f])"
proof -
  assume init: "VideoRecorder_init secs rate = Inr r0" and r: "r = foldl recorder_step r0 cs"
  from init have size: "buffer_size r0 = py_int (double (double secs * double (real_of_int rate)))"
    and empty: "frame_buffer r0 = []" and nonneg: "0 \<le> buffer_size r0"
    by (auto simp: VideoRecorder_init_def Let_def split: if_splits)
  have "int (length (frame_buffer r0)) \<le> buffer_size r0"
    using empty nonneg by simp
  from foldl_recorder_step_bounded [OF this, of cs]
  have bound: "int (length (frame_buffer r)) \<le> buffer_size r0"
    and same: "buffer_size r = buffer_size r0"
    by (simp_all add: r)
  show ?thesis
    using bound same size
    by (simp add: add_frame_def deque_append_full deque_append_room)
qed

theorem ring_never_exceeds_capacity_witness:
  "VideoRecorder_init (1 / 10) 30 =
     Inr \<lparr>buffer_seconds = double (1 / 10), fps = 30, buffer_size = 3, frame_buffer = ([] :: nat list),
          is_recording = False, current_video_frames = []\<rparr>
   \<and> frame_buffer (foldl recorder_step
        \<lparr>buffer_seconds = double (1 / 10), fps = 30, buffer_size = 3, frame_buffer = [],
         is_recording = False, current_video_frames = []\<rparr>
        [AddFrame (Some 1), AddFrame (Some 2), StartRecording, AddFrame (Some 3),
         AddRecordingFrame (Some 3), AddFrame (Some 4)]) = [2, 3, 4 :: nat]
   \<and> frame_buffer (add_frame (foldl recorder_step
        \<lparr>buffer_seconds = double (1 / 10), fps = 30, buffer_size = 3, frame_buffer = [],
         is_recording = False, current_video_frames = []\<rparr>
        [AddFrame (Some 1), AddFrame (Some 2), StartRecording, AddFrame (Some 3),
         AddRecordingFrame (Some 3), AddFrame (Some 4)]) (Some 5)) = [3, 4, 5 :: nat]"
proof -
  let ?r0 = "\<lparr>buffer_seconds = double (1 / 10), fps = 30, buffer_size = 3,
              frame_buffer = ([] :: nat list), is_recording = False,
              current_video_frames = []\<rparr>"
  let ?cs = "[AddFrame (Some 1), AddFrame (Some 2), StartRecording, AddFrame (Some 3),
              AddRecordingFrame (Some 3), AddFrame (Some (4::nat))]"
  have h: "VideoRecorder_init (1 / 10) 30 = Inr ?r0"
    by (simp add: VideoRecorder_init_def py_int_def double_eval)
  have run: "foldl recorder_step ?r0 ?cs =
               \<lparr>buffer_seconds = double (1 / 10), fps = 30, buffer_size = 3, frame_buffer = [2, 3, 4],
                is_recording = True, current_video_frames = [1, 2, 3]\<rparr>"
    by (simp add: add_frame_def start_recording_def add_recording_frame_def
          deque_append_def Let_def)
  from ring_never_exceeds_capacity [OF h refl, of ?cs 5, unfolded run] h
  show ?thesis unfolding run by simp
qed

text \<open>
  C10.  \<open>add_recording_frame\<close> while no recording is active, or with a \<open>None\<close> frame,
  returns the recorder unchanged: neither the active recording nor the ring changes.
\<close>

theorem add_recording_frame_ignored:
  "\<not> is_recording r \<or> frame = None \<Longrightarrow> add_recording_frame r frame = r"
  by (auto simp: add_recording_frame_def split: option.split)

theorem add_recording_frame_ignored_witness:
  "add_recording_frame
      \<lparr>buffer_seconds = 3, fps = 30, buffer_size = 90, frame_buffer = [1, 2 :: nat],
       is_recording = False, current_video_frames = []\<rparr> (Some 3)
    = \<lparr>buffer_seconds = 3, fps = 30, buffer_size = 90, frame_buffer = [1, 2],
       is_recording = False, current_video_frames = []\<rparr>
   \<and> add_recording_frame
      \<lparr>buffer_seconds = 3, fps = 30, buffer_size = 90, frame_buffer = [1, 2 :: nat],
       is_recording = True, current_video_frames = [1, 2]\<rparr> None
    = \<lparr>buffer_seconds = 3, fps = 30, buffer_size = 90, frame_buffer = [1, 2],
       is_recording = True, current_video_frames = [1, 2]\<rparr>"
proof -
  let ?idle = "\<lparr>buffer_seconds = 3, fps = 30, buffer_size = 90, frame_buffer = [1, 2 :: nat],
                is_recording = False, current_video_frames = []\<rparr>"
  let ?busy = "\<lparr>buffer_seconds = 3, fps = 30, buffer_size = 90, frame_buffer = [1, 2 :: nat],
                is_recording = True, current_video_frames = [1, 2]\<rparr>"
  have h1: "\<not> is_recording ?idle \<or> Some (3::nat) = None" by simp
  have h2: "\<not> is_recording ?busy \<or> (None :: nat option) = None" by simp
  from add_recording_frame_ignored [OF h1] add_recording_frame_ignored [OF h2]
  show ?thesis by simp
qed

section \<open>Properties of the metadata manager\<close>

lemma sum_list_ones: "sum_list (map (\<lambda>s. 1) xs) = int (length xs)"
  by (induction xs) simp_all

text \<open>
  C9.  After \<open>add_shot_metadata\<close> the session file holds a metadata dictionary whose shot
  list is the previous list (empty for a new session) with the new shot appended, whose
  \<open>total_shots\<close> is the length of that list, whose \<open>shots_made\<close> is the number of its
  shots with \<open>shot_made\<close> true, and whose \<open>shots_made\<close> and \<open>shots_missed\<close> add up to
  \<open>total_shots\<close>.
\<close>

theorem add_shot_metadata_counters_consistent:
  "\<exists>md. add_shot_metadata files now sid number made path text sid = Some md
     \<and> shots md = (case files sid of None \<Rightarrow> [] | Some m \<Rightarrow> shots m)
                    @ [\<lparr>shot_number = number, timestamp = now, shot_made = made,
                        video_path = path, critique = text\<rparr>]
     \<and> total_shots md = int (length (shots md))
     \<and> shots_made md = int (length (filter shot_made (shots md)))
     \<and> shots_made md + shots_missed md = total_shots md"
  by (simp add: add_shot_metadata_def load_session_metadata_def save_session_metadata_def
        create_session_metadata_def sum_list_ones Let_def split: option.split)

section \<open>Properties of the detector\<close>

lemma reset_state_flags [simp]:
  "is_shooting (reset_state d) = False" "shot_detected (reset_state d) = False"
  "min_confidence (reset_state d) = min_confidence d"
  by (simp_all add: reset_state_def)

lemma landmarks_missing_flags:
  "is_shooting (landmarks_missing d) \<Longrightarrow>
     is_shooting d \<and> shot_detected (landmarks_missing d) = shot_detected d"
  by (simp add: landmarks_missing_def split: if_splits)

lemma landmarks_missing_min_confidence [simp]:
  "min_confidence (landmarks_missing d) = min_confidence d"
  by (simp add: landmarks_missing_def)

lemma after_completion_flags:
  "is_shooting (after_completion d) \<Longrightarrow>
     is_shooting d \<and> shot_detected (after_completion d) = shot_detected d"
  by (simp add: after_completion_def Let_def split: if_splits)

lemma after_completion_min_confidence [simp]:
  "min_confidence (after_completion d) = min_confidence d"
  by (simp add: after_completion_def Let_def)

lemma after_completion_idle:
  "\<not> shot_detected d \<Longrightarrow> after_completion d = d"
  by (simp add: after_completion_def)

lemma check_extension_min_confidence [simp]:
  "min_confidence (check_extension d side) = min_confidence d"
  by (simp add: check_extension_def Let_def)

lemma store_positions_fields [simp]:
  "is_shooting (store_positions d w e s) = is_shooting d"
  "shot_detected (store_positions d w e s) = shot_detected d"
  "min_confidence (store_positions d w e s) = min_confidence d"
  "frames_since_release (store_positions d w e s) = frames_since_release d"
  "max_frames_after_release (store_positions d w e s) = max_frames_after_release d"
  "wrist_upward_velocity_threshold (store_positions d w e s) = wrist_upward_velocity_threshold d"
  "min_wrist_height (store_positions d w e s) = min_wrist_height d"
  "max_wrist_height (store_positions d w e s) = max_wrist_height d"
  "elbow_extension_threshold (store_positions d w e s) = elbow_extension_threshold d"
  "min_wrist_above_shoulder (store_positions d w e s) = min_wrist_above_shoulder d"
  by (simp_all add: store_positions_def)

lemma detect_min_confidence [simp]:
  "min_confidence (detector (detect d nw ns side)) = min_confidence d"
  by (simp add: detect_def returns_def Let_def split: option.split)

lemma detect_fired:
  "fired (detect d nw ns side) \<Longrightarrow>
     is_shooting d \<and> \<not> shot_detected d
     \<and> (is_shooting (detector (detect d nw ns side))
          \<longrightarrow> shot_detected (detector (detect d nw ns side)))"
  by (auto simp: detect_def returns_def shot_completed_def Let_def
        dest: after_completion_flags split: option.splits if_splits)

lemma detect_cooldown:
  "is_shooting d \<Longrightarrow> shot_detected d \<Longrightarrow>
     \<not> fired (detect d nw ns side)
     \<and> (is_shooting (detector (detect d nw ns side))
          \<longrightarrow> shot_detected (detector (detect d nw ns side)))"
  by (auto simp: detect_def returns_def release_started_def Let_def
        dest: after_completion_flags split: option.splits if_splits)

lemma track_fired:
  "fired (track d h w e s side) \<Longrightarrow>
     is_shooting d \<and> \<not> shot_detected d
     \<and> (is_shooting (detector (track d h w e s side))
          \<longrightarrow> shot_detected (detector (track d h w e s side)))"
  by (auto simp: track_def Let_def dest!: detect_fired split: if_splits)

lemma track_cooldown:
  "is_shooting d \<Longrightarrow> shot_detected d \<Longrightarrow>
     \<not> fired (track d h w e s side)
     \<and> (is_shooting (detector (track d h w e s side))
          \<longrightarrow> shot_detected (detector (track d h w e s side)))"
  using detect_cooldown [of "store_positions d w e s"]
  by (simp add: track_def Let_def)

lemma process_frame_fired:
  "fired (process_frame d frame lms) \<Longrightarrow>
     is_shooting d \<and> \<not> shot_detected d
     \<and> (is_shooting (detector (process_frame d frame lms))
          \<longrightarrow> shot_detected (detector (process_frame d frame lms)))"
  by (auto simp: process_frame_def returns_def dest!: track_fired
        split: option.splits prod.splits)

lemma process_frame_cooldown:
  "is_shooting d \<Longrightarrow> shot_detected d \<Longrightarrow>
     \<not> fired (process_frame d frame lms)
     \<and> (is_shooting (detector (process_frame d frame lms))
          \<longrightarrow> shot_detected (detector (process_frame d frame lms)))"
  by (auto simp: process_frame_def returns_def track_cooldown
        dest: landmarks_missing_flags split: option.splits prod.splits)

lemma process_frame_min_confidence [simp]:
  "min_confidence (detector (process_frame d frame lms)) = min_confidence d"
  by (simp add: process_frame_def returns_def track_def Let_def split: option.split prod.split)

lemma calculate_velocity_window:
  "5 \<le> length ps \<Longrightarrow>
   calculate_velocity ps =
     Some (double (real_of_int (fst (last ps) - fst (hd ps))
                     / real_of_int (int (length ps) - 1)),
           double (real_of_int (snd (last ps) - snd (hd ps))
                     / real_of_int (int (length ps) - 1)))"
  by (simp add: calculate_velocity_def Let_def)










lemma episode_step:
  assumes "is_shooting d"
  shows "(fired (process_frame d frame lms) \<longrightarrow> \<not> shot_detected d)
       \<and> (is_shooting (detector (process_frame d frame lms)) \<longrightarrow>
            (shot_detected d \<or> fired (process_frame d frame lms)) \<longrightarrow>
            shot_detected (detector (process_frame d frame lms)))"
  using assms process_frame_fired [of d frame lms] process_frame_cooldown [of d frame lms]
  by blast

lemma episode_emissions_bound:
  "is_shooting d \<Longrightarrow> episode_emissions d ss \<le> (if shot_detected d then 0 else 1)"
proof (induction ss arbitrary: d)
  case Nil
  then show ?case by simp
next
  case (Cons s ss)
  let ?out = "process_frame d (fst s) (snd s)"
  note step = episode_step [OF Cons.prems, of "fst s" "snd s"]
  show ?case
  proof (cases "is_shooting (detector ?out)")
    case True
    from Cons.IH [OF True]
    have rest: "episode_emissions (detector ?out) ss
                  \<le> (if shot_detected (detector ?out) then 0 else 1)" .
    show ?thesis
    proof (cases "fired ?out")
      case True
      with step \<open>is_shooting (detector ?out)\<close> rest show ?thesis
        by (simp add: Let_def)
    next
      case False
      with step \<open>is_shooting (detector ?out)\<close> rest show ?thesis
        by (auto simp: Let_def split: if_splits)
    qed
  next
    case False
    with step show ?thesis by (simp add: Let_def)
  qed
qed

text \<open>The sample runs, evaluated frame by frame.\<close>

lemmas sample_defs =
  wrist_at_def frame_100_def pose_def RIGHT_WRIST_def RIGHT_ELBOW_def RIGHT_SHOULDER_def
  LEFT_WRIST_def LEFT_ELBOW_def LEFT_SHOULDER_def both_arms_def

lemmas detector_defs =
  process_frame_def get_shooting_arm_landmarks_def arm_landmarks_def get_visibility_def
  pixel_def py_int_def track_def store_positions_def deque_append_def detect_def returns_def
  after_completion_def landmarks_missing_def reset_state_def calculate_velocity_def
  release_started_def shot_completed_def check_extension_def arm_extension_of_def
  double_eval

lemmas fixture_defs =
  holding_def tracking_detector_def armed_detector_def ShotDetector_init_def



lemma rising_step_1:
  "process_frame ShotDetector_init (fst (wrist_at 0.60)) (snd (wrist_at 0.60))
     = returns (holding [(50, 60)] [(50, 65)] [(50, 70)] [5])"
  by (simp add: fixture_defs sample_defs detector_defs)

lemma rising_step_2:
  "process_frame (holding [(50, 60)] [(50, 65)] [(50, 70)] [5])
      (fst (wrist_at 0.58)) (snd (wrist_at 0.58))
     = returns (holding [(50, 60), (50, 57)] [(50, 65), (50, 65)] [(50, 70), (50, 70)] [5, 8])"
  by (simp add: fixture_defs sample_defs detector_defs)

lemma rising_step_3:
  "process_frame
      (holding [(50, 60), (50, 57)] [(50, 65), (50, 65)] [(50, 70), (50, 70)] [5, 8])
      (fst (wrist_at 0.55)) (snd (wrist_at 0.55))
     = returns (holding [(50, 60), (50, 57), (50, 55)] [(50, 65), (50, 65), (50, 65)]
                  [(50, 70), (50, 70), (50, 70)] [5, 8, 10])"
  by (simp add: fixture_defs sample_defs detector_defs)

lemma rising_step_4:
  "process_frame
      (holding [(50, 60), (50, 57), (50, 55)] [(50, 65), (50, 65), (50, 65)]
         [(50, 70), (50, 70), (50, 70)] [5, 8, 10])
      (fst (wrist_at 0.52)) (snd (wrist_at 0.52))
     = returns (holding [(50, 60), (50, 57), (50, 55), (50, 52)]
                  [(50, 65), (50, 65), (50, 65), (50, 65)]
                  [(50, 70), (50, 70), (50, 70), (50, 70)] [5, 8, 10, 13])"
  by (simp add: fixture_defs sample_defs detector_defs)

lemma rising_step_5:
  "process_frame
      (holding [(50, 60), (50, 57), (50, 55), (50, 52)]
         [(50, 65), (50, 65), (50, 65), (50, 65)]
         [(50, 70), (50, 70), (50, 70), (50, 70)] [5, 8, 10, 13])
      (fst (wrist_at 0.48)) (snd (wrist_at 0.48))
     = returns (holding [(50, 60), (50, 57), (50, 55), (50, 52), (50, 48)]
                  [(50, 65), (50, 65), (50, 65), (50, 65), (50, 65)]
                  [(50, 70), (50, 70), (50, 70), (50, 70), (50, 70)] [5, 8, 10, 13, 17])"
  by (simp add: fixture_defs sample_defs detector_defs)

lemma rising_step_6:
  "process_frame
      (holding [(50, 60), (50, 57), (50, 55), (50, 52), (50, 48)]
         [(50, 65), (50, 65), (50, 65), (50, 65), (50, 65)]
         [(50, 70), (50, 70), (50, 70), (50, 70), (50, 70)] [5, 8, 10, 13, 17])
      (fst (wrist_at 0.44)) (snd (wrist_at 0.44))
     = returns tracking_detector"
  by (simp add: fixture_defs sample_defs detector_defs)

lemma arming_step:
  "process_frame tracking_detector (fst (wrist_at 0.4)) (snd (wrist_at 0.4))
     = returns armed_detector"
  by (simp add: fixture_defs sample_defs detector_defs)

lemmas rising_steps =
  rising_step_1 rising_step_2 rising_step_3 rising_step_4 rising_step_5 rising_step_6
  arming_step

lemma holding_flags:
  "\<not> is_shooting (holding ws es ss xs)" "\<not> shot_detected (holding ws es ss xs)"
  "detector_state (holding ws es ss xs) = Idle"
  by (simp_all add: holding_def ShotDetector_init_def detector_state_def)

lemma tracking_detector_idle:
  "detector_state tracking_detector = Idle"
  by (simp add: tracking_detector_def ShotDetector_init_def detector_state_def)

lemma armed_detector_flags:
  "is_shooting armed_detector" "\<not> shot_detected armed_detector"
  "detector_state armed_detector = Armed"
  by (simp_all add: armed_detector_def ShotDetector_init_def detector_state_def)

lemma rising_wrist_run:
  "run_detector ShotDetector_init rising_wrist =
     [returns (holding [(50, 60)] [(50, 65)] [(50, 70)] [5]),
      returns (holding [(50, 60), (50, 57)] [(50, 65), (50, 65)] [(50, 70), (50, 70)] [5, 8]),
      returns (holding [(50, 60), (50, 57), (50, 55)] [(50, 65), (50, 65), (50, 65)]
                 [(50, 70), (50, 70), (50, 70)] [5, 8, 10]),
      returns (holding [(50, 60), (50, 57), (50, 55), (50, 52)]
                 [(50, 65), (50, 65), (50, 65), (50, 65)]
                 [(50, 70), (50, 70), (50, 70), (50, 70)] [5, 8, 10, 13]),
      returns (holding [(50, 60), (50, 57), (50, 55), (50, 52), (50, 48)]
                 [(50, 65), (50, 65), (50, 65), (50, 65), (50, 65)]
                 [(50, 70), (50, 70), (50, 70), (50, 70), (50, 70)] [5, 8, 10, 13, 17]),
      returns tracking_detector,
      returns armed_detector]"
  using rising_steps by (simp add: rising_wrist_def Let_def returns_def)

lemma rising_wrist_fired:
  "map fired (run_detector ShotDetector_init rising_wrist)
     = [False, False, False, False, False, False, False]"
  by (simp add: rising_wrist_run returns_def)

lemma rising_wrist_states:
  "map detector_state (map detector (run_detector ShotDetector_init rising_wrist))
     = [Idle, Idle, Idle, Idle, Idle, Idle, Armed]"
  by (simp add: rising_wrist_run returns_def holding_flags tracking_detector_idle
        armed_detector_flags)

lemma rising_wrist_armed:
  "detector_after ShotDetector_init rising_wrist = armed_detector"
  using rising_steps by (simp add: rising_wrist_def returns_def)

lemma lowered_step:
  "process_frame armed_detector (fst (wrist_at 0.42)) (snd (wrist_at 0.42))
     = returns (armed_detector
         \<lparr>wrist_positions := wrist_positions armed_detector @ [(50, 42)],
          elbow_positions := elbow_positions armed_detector @ [(50, 65)],
          shoulder_positions := shoulder_positions armed_detector @ [(50, 70)],
          arm_extension_history := arm_extension_history armed_detector @ [23]\<rparr>)"
  by (simp add: fixture_defs sample_defs detector_defs)

lemma lowered_release_step:
  "fired (process_frame
      (armed_detector
         \<lparr>wrist_positions := wrist_positions armed_detector @ [(50, 42)],
          elbow_positions := elbow_positions armed_detector @ [(50, 65)],
          shoulder_positions := shoulder_positions armed_detector @ [(50, 70)],
          arm_extension_history := arm_extension_history armed_detector @ [23]\<rparr>)
      (fst (wrist_at 0.7)) (snd (wrist_at 0.7)))"
  "detector_state (detector (process_frame
      (armed_detector
         \<lparr>wrist_positions := wrist_positions armed_detector @ [(50, 42)],
          elbow_positions := elbow_positions armed_detector @ [(50, 65)],
          shoulder_positions := shoulder_positions armed_detector @ [(50, 70)],
          arm_extension_history := arm_extension_history armed_detector @ [23]\<rparr>)
      (fst (wrist_at 0.7)) (snd (wrist_at 0.7)))) = Cooldown"
  by (simp_all add: fixture_defs sample_defs detector_defs detector_state_def)

lemma release_step:
  "fired (process_frame armed_detector (fst (wrist_at 0.7)) (snd (wrist_at 0.7)))"
  "detector_state (detector (process_frame armed_detector (fst (wrist_at 0.7))
      (snd (wrist_at 0.7)))) = Cooldown"
  by (simp_all add: fixture_defs sample_defs detector_defs detector_state_def)

lemma release_episode:
  "episode_emissions armed_detector [wrist_at 0.42, wrist_at 0.7, wrist_at 0.72, wrist_at 0.75] = 1"
proof -
  let ?d1 = "armed_detector
         \<lparr>wrist_positions := wrist_positions armed_detector @ [(50, 42)],
          elbow_positions := elbow_positions armed_detector @ [(50, 65)],
          shoulder_positions := shoulder_positions armed_detector @ [(50, 70)],
          arm_extension_history := arm_extension_history armed_detector @ [23]\<rparr>"
  let ?out = "process_frame ?d1 (fst (wrist_at 0.7)) (snd (wrist_at 0.7))"
  have shooting: "is_shooting ?d1"
    using armed_detector_flags(1) by simp
  have first: "episode_emissions armed_detector
                 [wrist_at 0.42, wrist_at 0.7, wrist_at 0.72, wrist_at 0.75]
               = episode_emissions ?d1 [wrist_at 0.7, wrist_at 0.72, wrist_at 0.75]"
    using lowered_step shooting by (simp add: Let_def returns_def)
  from lowered_release_step have cooldown: "is_shooting (detector ?out)"
    "shot_detected (detector ?out)"
    by (auto simp: detector_state_def split: if_splits)
  from episode_emissions_bound [OF cooldown(1), of "[wrist_at 0.72, wrist_at 0.75]"] cooldown(2)
  have "episode_emissions (detector ?out) [wrist_at 0.72, wrist_at 0.75] = 0"
    by simp
  with lowered_release_step(1) cooldown(1)
  have "episode_emissions ?d1 [wrist_at 0.7, wrist_at 0.72, wrist_at 0.75] = 1"
    by (simp add: Let_def)
  with first show ?thesis by simp
qed







text \<open>
  At the margin the float test decides: with the wrist at row 50 and the shoulder at row
  55 of 100 the float difference of the normalized heights is just above the float 0.05,
  so the armed detector stays armed and the tracking detector arms.
\<close>

lemma float_margin_keeps_armed:
  "process_frame armed_detector (Some frame_100) (Some (pose 0.9 0.5 0.65 0.55))
     = returns (armed_detector
         \<lparr>wrist_positions := wrist_positions armed_detector @ [(50, 50)],
          elbow_positions := elbow_positions armed_detector @ [(50, 65)],
          shoulder_positions := shoulder_positions armed_detector @ [(50, 55)],
          arm_extension_history := arm_extension_history armed_detector @ [15]\<rparr>)"
  by (simp add: fixture_defs sample_defs detector_defs)

lemma float_margin_arms:
  "detector_state (detector (process_frame tracking_detector (Some frame_100)
      (Some (pose 0.9 0.5 0.65 0.55)))) = Armed"
  by (simp add: fixture_defs sample_defs detector_defs detector_state_def)





text \<open>
  C6.  While \<open>is_shooting\<close> is set, that is from the frame that armed the detector to the
  next reset, the shot callback is invoked at most once, and not at all once
  \<open>shot_detected\<close> is set: a frame processed with the flag set never invokes it, whatever
  the frame shows.
\<close>

theorem event_end_at_most_once:
  "is_shooting d \<Longrightarrow>
   episode_emissions d ss \<le> (if shot_detected d then 0 else 1)
   \<and> (shot_detected d \<longrightarrow> \<not> fired (process_frame d frame player_landmarks))"
  using episode_emissions_bound [of d ss] process_frame_fired [of d frame player_landmarks]
  by blast

theorem event_end_at_most_once_witness:
  "is_shooting armed_detector \<and> \<not> shot_detected armed_detector
   \<and> episode_emissions armed_detector
        [wrist_at 0.42, wrist_at 0.7, wrist_at 0.72, wrist_at 0.75] = 1
   \<and> is_shooting (detector_after armed_detector [wrist_at 0.7])
   \<and> shot_detected (detector_after armed_detector [wrist_at 0.7])
   \<and> \<not> fired (process_frame (detector_after armed_detector [wrist_at 0.7])
            (fst (wrist_at 0.72)) (snd (wrist_at 0.72)))"
proof -
  have h: "is_shooting armed_detector"
    by (rule armed_detector_flags)
  have cooldown: "is_shooting (detector_after armed_detector [wrist_at 0.7])
                  \<and> shot_detected (detector_after armed_detector [wrist_at 0.7])"
    using release_step(2) by (simp add: detector_state_def split: if_splits)
  then have h': "is_shooting (detector_after armed_detector [wrist_at 0.7])"
    by simp
  from event_end_at_most_once [OF h,
         of "[wrist_at 0.42, wrist_at 0.7, wrist_at 0.72, wrist_at 0.75]"]
    event_end_at_most_once [OF h', of "[]" "fst (wrist_at 0.72)" "snd (wrist_at 0.72)"]
    release_episode armed_detector_flags cooldown
  show ?thesis by simp
qed

lemma flag_only_set_by_trigger:
  "\<not> shot_detected d \<Longrightarrow> shot_detected (detector (process_frame d frame lms)) \<Longrightarrow>
     fired (process_frame d frame lms)"
  by (auto simp: process_frame_def returns_def track_def detect_def landmarks_missing_def
        after_completion_def check_extension_def reset_state_def Let_def
        split: option.splits prod.splits if_splits)

text \<open>
  C1, counterexample.  Over the seven frames of \<open>rising_wrist\<close> the detector, started
  fresh, is idle after each of the first six frames and armed after the seventh, and the
  shot callback is invoked on none of them: the frame that arms emits nothing.
\<close>

theorem arming_frame_emits_nothing:
  "map detector_state (map detector (run_detector ShotDetector_init rising_wrist))
     = [Idle, Idle, Idle, Idle, Idle, Idle, Armed]
   \<and> map fired (run_detector ShotDetector_init rising_wrist)
     = [False, False, False, False, False, False, False]"
  using rising_wrist_states rising_wrist_fired by simp

text \<open>
  C1, amended.  The detector has one signal, the shot callback, and invokes it only on
  a frame that finds it armed and confirms the release: after that frame it is in cooldown
  (or already reset to idle), never armed; a frame that finds it idle, the arming frame
  included, invokes nothing, and a frame that takes it from armed to cooldown always
  invokes it.  The callback \<open>on_shot_detected\<close>, when a session is active, starts the
  recording at that moment, seeded with the ring contents.
\<close>

theorem callback_only_at_release_confirmation:
  "(fired (process_frame d frame player_landmarks) \<longrightarrow>
      detector_state d = Armed
      \<and> detector_state (detector (process_frame d frame player_landmarks)) \<noteq> Armed)
   \<and> (detector_state d = Idle \<longrightarrow> \<not> fired (process_frame d frame player_landmarks))
   \<and> (detector_state d = Armed
        \<and> detector_state (detector (process_frame d frame player_landmarks)) = Cooldown \<longrightarrow>
          fired (process_frame d frame player_landmarks))
   \<and> (session_is_active w \<longrightarrow>
        is_recording (video_recorder (on_shot_detected w))
        \<and> current_video_frames (video_recorder (on_shot_detected w))
            = frame_buffer (video_recorder w))"
proof (intro conjI impI)
  assume "fired (process_frame d frame player_landmarks)"
  from process_frame_fired [OF this]
  show "detector_state d = Armed"
    and "detector_state (detector (process_frame d frame player_landmarks)) \<noteq> Armed"
    by (auto simp: detector_state_def)
next
  assume "detector_state d = Idle"
  then show "\<not> fired (process_frame d frame player_landmarks)"
    using process_frame_fired [of d frame player_landmarks]
    by (auto simp: detector_state_def split: if_splits)
next
  assume "detector_state d = Armed
          \<and> detector_state (detector (process_frame d frame player_landmarks)) = Cooldown"
  then have "\<not> shot_detected d"
    and "shot_detected (detector (process_frame d frame player_landmarks))"
    by (auto simp: detector_state_def split: if_splits)
  then show "fired (process_frame d frame player_landmarks)"
    by (rule flag_only_set_by_trigger)
next
  assume "session_is_active w"
  then show "is_recording (video_recorder (on_shot_detected w))"
    and "current_video_frames (video_recorder (on_shot_detected w))
           = frame_buffer (video_recorder w)"
    by (simp_all add: on_shot_detected_def start_recording_def)
qed

theorem callback_only_at_release_confirmation_witness:
  "fired (process_frame armed_detector (fst (wrist_at 0.7)) (snd (wrist_at 0.7)))
   \<and> detector_state armed_detector = Armed
   \<and> detector_state (detector (process_frame armed_detector (fst (wrist_at 0.7))
        (snd (wrist_at 0.7)))) = Cooldown
   \<and> detector_state tracking_detector = Idle
   \<and> \<not> fired (process_frame tracking_detector (fst (wrist_at 0.4)) (snd (wrist_at 0.4)))
   \<and> current_video_frames (video_recorder (on_shot_detected
        \<lparr>session_is_active = True, current_shot_number = 0,
         video_recorder = \<lparr>buffer_seconds = 3, fps = 30, buffer_size = 90,
           frame_buffer = [1, 2 :: nat], is_recording = False,
           current_video_frames = []\<rparr>\<rparr>)) = [1, 2]"
proof -
  let ?w = "\<lparr>session_is_active = True, current_shot_number = 0,
         video_recorder = \<lparr>buffer_seconds = 3, fps = 30, buffer_size = 90,
           frame_buffer = [1, 2 :: nat], is_recording = False,
           current_video_frames = []\<rparr>\<rparr>"
  have active: "session_is_active ?w" by simp
  from callback_only_at_release_confirmation
         [of armed_detector "fst (wrist_at 0.7)" "snd (wrist_at 0.7)" ?w]
       callback_only_at_release_confirmation
         [of tracking_detector "fst (wrist_at 0.4)" "snd (wrist_at 0.4)" ?w]
       release_step tracking_detector_idle active
  show ?thesis by simp
qed

lemma after_completion_triggered:
  "is_shooting d \<Longrightarrow>
   detector_state (after_completion (d\<lparr>shot_detected := True\<rparr>))
     = (if frames_since_release d + 1 > max_frames_after_release d then Idle else Cooldown)"
  by (simp add: after_completion_def detector_state_def Let_def)

lemma detect_armed:
  assumes "is_shooting d" "\<not> shot_detected d" "7 \<le> length (wrist_positions d)"
  shows "fired (detect d nw ns side)
           = (vertical_velocity_of d > double 0.005 \<or> nw > double 0.95 \<or> nw < double 0.1
              \<or> \<not> (double (ns - nw) > min_wrist_above_shoulder d))
       \<and> detector (detect d nw ns side)
           = (if vertical_velocity_of d > double 0.005 \<or> nw > double 0.95 \<or> nw < double 0.1
                 \<or> \<not> (double (ns - nw) > min_wrist_above_shoulder d)
              then after_completion (d\<lparr>shot_detected := True\<rparr>) else d)"
proof -
  from assms(3) have vel: "calculate_velocity (wrist_positions d)
      = Some (double (real_of_int (fst (last (wrist_positions d))
                                      - fst (hd (wrist_positions d)))
                        / real_of_int (int (length (wrist_positions d)) - 1)),
              vertical_velocity_of d)"
    by (simp add: calculate_velocity_window vertical_velocity_of_def)
  from assms show ?thesis
    by (simp add: detect_def vel release_started_def shot_completed_def returns_def
          after_completion_idle Let_def)
qed

text \<open>
  C7, counterexample.  The fresh detector is armed after the seven frames of
  \<open>rising_wrist\<close> and holds seven wrist positions.  On the next frame the wrist is at the
  normalized height 0.2, outside the band between \<open>min_wrist_height\<close> and
  \<open>max_wrist_height\<close> that was required to arm, and the detector stays armed.
\<close>

theorem armed_outside_arming_band:
  "detector_after ShotDetector_init rising_wrist = armed_detector
   \<and> detector_state armed_detector = Armed
   \<and> length (wrist_positions armed_detector) = 7
   \<and> get_shooting_arm_landmarks armed_detector (pose 0.9 0.2 0.65 0.7) 100 100
        = Some ((50, 20), (50, 65), (50, 70), ''right'')
   \<and> \<not> (min_wrist_height armed_detector < normalized_y (50, 20) 100
          \<and> normalized_y (50, 20) 100 < max_wrist_height armed_detector)
   \<and> detector_state (detector (process_frame armed_detector (Some frame_100)
        (Some (pose 0.9 0.2 0.65 0.7)))) = Armed"
proof -
  have found: "get_shooting_arm_landmarks armed_detector (pose 0.9 0.2 0.65 0.7) 100 100
        = Some ((50, 20), (50, 65), (50, 70), ''right'')"
    by (simp add: get_shooting_arm_landmarks_def arm_landmarks_def get_visibility_def
          double_eval pixel_def py_int_def armed_detector_def ShotDetector_init_def sample_defs)
  have band: "\<not> (min_wrist_height armed_detector < normalized_y (50, 20) 100
          \<and> normalized_y (50, 20) 100 < max_wrist_height armed_detector)"
    by (simp add: normalized_y_def armed_detector_def ShotDetector_init_def double_eval)
  have stays: "detector_state (detector (process_frame armed_detector (Some frame_100)
        (Some (pose 0.9 0.2 0.65 0.7)))) = Armed"
    by (simp add: armed_detector_def ShotDetector_init_def sample_defs detector_defs
          detector_state_def)
  have "length (wrist_positions armed_detector) = 7"
    by (simp add: armed_detector_def ShotDetector_init_def)
  with found band stays rising_wrist_armed armed_detector_flags(3) show ?thesis
    by simp
qed

text \<open>
  C7, amended.  On a frame that finds the detector armed, resolves an arm, has a nonzero
  height and leaves at least seven wrist positions in the window, the shot callback is
  invoked exactly when the vertical velocity between the oldest and the newest wrist
  position held exceeds 0.005 (downward), or the normalized wrist height is above 0.95 or
  below 0.1 (a band wider than the one required to arm), or the wrist is no longer above
  the shoulder by more than \<open>min_wrist_above_shoulder\<close>, each quantity being the float the
  program computes.  The detector is then in cooldown, unless more than
  \<open>max_frames_after_release\<close> frames have been counted since arming, in which case it is
  reset to idle on the same frame; if none of the conditions holds it stays armed.
\<close>

theorem armed_to_cooldown_condition:
  assumes "detector_state d = Armed"
    and "get_shooting_arm_landmarks d lms (fst (shape fr)) (snd (shape fr))
           = Some (wrist_pos, elbow_pos, shoulder_pos, side)"
    and "0 < fst (shape fr)"
    and "7 \<le> length (wrist_positions (store_positions d wrist_pos elbow_pos shoulder_pos))"
    and "completes =
           (vertical_velocity_of (store_positions d wrist_pos elbow_pos shoulder_pos)
              > double 0.005
            \<or> normalized_y wrist_pos (fst (shape fr)) > double 0.95
            \<or> normalized_y wrist_pos (fst (shape fr)) < double 0.1
            \<or> \<not> (double (normalized_y shoulder_pos (fst (shape fr))
                            - normalized_y wrist_pos (fst (shape fr)))
                    > min_wrist_above_shoulder d))"
  shows "fired (process_frame d (Some fr) (Some lms)) = completes
       \<and> detector_state (detector (process_frame d (Some fr) (Some lms)))
           = (if completes
              then (if frames_since_release d + 1 > max_frames_after_release d then Idle
                    else Cooldown)
              else Armed)"
proof -
  let ?d = "store_positions d wrist_pos elbow_pos shoulder_pos"
  from assms(1) have flags: "is_shooting d" "\<not> shot_detected d"
    by (auto simp: detector_state_def split: if_splits)
  have out: "process_frame d (Some fr) (Some lms)
      = detect ?d (normalized_y wrist_pos (fst (shape fr)))
          (normalized_y shoulder_pos (fst (shape fr))) side"
    using assms(2,3) by (simp add: process_frame_def track_def normalized_y_def Let_def)
  have stored: "is_shooting ?d" "\<not> shot_detected ?d"
    using flags by simp_all
  note step = detect_armed [OF stored assms(4),
      of "normalized_y wrist_pos (fst (shape fr))"
         "normalized_y shoulder_pos (fst (shape fr))" side]
  show ?thesis
  proof (cases completes)
    case True
    with step assms(5) have "fired (process_frame d (Some fr) (Some lms))"
      and "detector (process_frame d (Some fr) (Some lms))
             = after_completion (?d\<lparr>shot_detected := True\<rparr>)"
      by (simp_all add: out)
    with True after_completion_triggered [OF stored(1)] show ?thesis
      by simp
  next
    case False
    with step assms(5) have "\<not> fired (process_frame d (Some fr) (Some lms))"
      and "detector (process_frame d (Some fr) (Some lms)) = ?d"
      by (simp_all add: out)
    with False stored show ?thesis
      by (simp add: detector_state_def)
  qed
qed

theorem armed_to_cooldown_condition_witness:
  "detector_state armed_detector = Armed
   \<and> get_shooting_arm_landmarks armed_detector (pose 0.9 0.7 0.65 0.7) (fst (shape frame_100))
        (snd (shape frame_100)) = Some ((50, 70), (50, 65), (50, 70), ''right'')
   \<and> 0 < fst (shape frame_100)
   \<and> 7 \<le> length (wrist_positions (store_positions armed_detector (50, 70) (50, 65) (50, 70)))
   \<and> vertical_velocity_of (store_positions armed_detector (50, 70) (50, 65) (50, 70))
        > double 0.005
   \<and> fired (process_frame armed_detector (Some frame_100) (Some (pose 0.9 0.7 0.65 0.7)))
   \<and> detector_state (detector (process_frame armed_detector (Some frame_100)
        (Some (pose 0.9 0.7 0.65 0.7)))) = Cooldown"
proof -
  let ?d = "store_positions armed_detector (50, 70) (50, 65) (50, 70)"
  have found: "get_shooting_arm_landmarks armed_detector (pose 0.9 0.7 0.65 0.7)
        (fst (shape frame_100)) (snd (shape frame_100))
        = Some ((50, 70), (50, 65), (50, 70), ''right'')"
    by (simp add: get_shooting_arm_landmarks_def arm_landmarks_def get_visibility_def
          double_eval pixel_def py_int_def armed_detector_def ShotDetector_init_def sample_defs)
  have height: "0 < fst (shape frame_100)"
    by (simp add: frame_100_def)
  have depth: "7 \<le> length (wrist_positions ?d)"
    by (simp add: store_positions_def deque_append_def armed_detector_def
          ShotDetector_init_def Let_def)
  have vel: "vertical_velocity_of ?d > double 0.005"
    by (simp add: vertical_velocity_of_def store_positions_def deque_append_def double_eval
          armed_detector_def ShotDetector_init_def Let_def)
  have count: "\<not> frames_since_release armed_detector + 1
                   > max_frames_after_release armed_detector"
    by (simp add: armed_detector_def ShotDetector_init_def)
  from armed_to_cooldown_condition [OF armed_detector_flags(3) found height depth refl]
    vel count found height depth armed_detector_flags(3)
  show ?thesis by simp
qed

section \<open>Properties of the analysis\<close>

lemma determine_shot_result_raises:
  "analyze_video path ShotResultPrompt = Inl e \<Longrightarrow>
     determine_shot_result analyze_video path = False"
  by (simp add: determine_shot_result_def)

text \<open>
  The repository's client never raises, so the handler of \<open>determine_shot_result\<close> is not
  entered: when the service raises, the outcome is read off the error text.
\<close>

lemma GeminiClient_returns:
  "\<exists>response. GeminiClient_analyze_video env path p = Inr response"
  by (simp add: GeminiClient_analyze_video_def split: sum.split)

lemma service_error_outcome:
  "genai_generate_content env path ShotResultPrompt = Inl e \<Longrightarrow>
     determine_shot_result (GeminiClient_analyze_video env) path
       = (py_in ''MADE'' (py_upper (py_strip (''Error analyzing video: '' @ e)))
          \<and> \<not> py_in ''MISSED'' (py_upper (py_strip (''Error analyzing video: '' @ e))))"
  by (simp add: determine_shot_result_def GeminiClient_analyze_video_def Let_def)

lemma refused_message_reads_made:
  "py_in ''MADE'' (py_upper (py_strip (''Error analyzing video: '' @ refused_message)))"
  "\<not> py_in ''MISSED'' (py_upper (py_strip (''Error analyzing video: '' @ refused_message)))"
  by code_simp+

text \<open>
  C8, at the failing input.  A task with one frame and no given outcome is submitted while
  the service refuses the connection, raising on every question an error whose message
  contains the word \<open>made\<close>.  The client returns the error text, \<open>determine_shot_result\<close>
  finds \<open>MADE\<close> in it and returns True: the clip is moved to the path of a made shot, the
  later stages run with the error text as critique, and the shot is stored and reported
  to the callback as made, with a clip path that is not \<open>None\<close>.
\<close>

theorem refused_connection_classified_as_made:
  "genai_generate_content refused_connection (get_shot_video_path ''s'' 1 False False)
      ShotResultPrompt = Inl refused_message
   \<and> determine_shot_result (GeminiClient_analyze_video refused_connection)
        (get_shot_video_path ''s'' 1 False False) = True
   \<and> trace (analyze_shot_sync refused_connection True no_sessions ''s'' 1 [0 :: nat] 640 480
        None)
       = [PersistRaw (get_shot_video_path ''s'' 1 False False),
          DetermineOutcome (get_shot_video_path ''s'' 1 False False),
          Relocate (get_shot_video_path ''s'' 1 False False)
            (get_shot_video_path ''s'' 1 True False),
          GenerateFeedback (get_shot_video_path ''s'' 1 True False) True,
          RenderOverlay (get_shot_video_path ''s'' 1 True False)
            (get_shot_video_path ''s'' 1 True True)
            (''Error analyzing video: '' @ refused_message),
          PersistRecord 1 True (get_shot_video_path ''s'' 1 True True)
            (''Error analyzing video: '' @ refused_message),
          Callback 1 (Some True) (''Error analyzing video: '' @ refused_message)
            (Some (get_shot_video_path ''s'' 1 True True))]
   \<and> map_option shots
        (metadata_files
           (analyze_shot_sync refused_connection True no_sessions ''s'' 1 [0 :: nat] 640 480
              None) ''s'')
       = Some [\<lparr>shot_number = 1, timestamp = ''2025-01-01T00:00:00'', shot_made = True,
                 video_path = get_shot_video_path ''s'' 1 True True,
                 critique = ''Error analyzing video: '' @ refused_message\<rparr>]"
proof -
  let ?raw = "get_shot_video_path ''s'' 1 False False"
  have raises: "genai_generate_content refused_connection ?raw ShotResultPrompt
                  = Inl refused_message"
    by (simp add: refused_connection_def)
  have made: "determine_shot_result (GeminiClient_analyze_video refused_connection) ?raw = True"
    using service_error_outcome [OF raises] refused_message_reads_made by simp
  have critique: "generate_shot_critique (GeminiClient_analyze_video refused_connection) p True
                    = Inr (''Error analyzing video: '' @ refused_message)" for p
    by (simp add: generate_shot_critique_def GeminiClient_analyze_video_def
          refused_connection_def)
  have env: "video_writer_opens refused_connection = (\<lambda>path. True)"
    "shutil_move refused_connection = (\<lambda>src dst. None)"
    "add_text_overlay refused_connection = (\<lambda>src dst text. True)"
    "metadata_write_error refused_connection = (\<lambda>sid. None)"
    "datetime_now refused_connection = ''2025-01-01T00:00:00''"
    by (simp_all add: refused_connection_def failing_classifier_def)
  have out: "analyze_shot_sync refused_connection True no_sessions ''s'' 1 [0 :: nat] 640 480 None
      = \<lparr>metadata_files =
           add_shot_metadata Map.empty ''2025-01-01T00:00:00'' ''s'' 1 True
             (get_shot_video_path ''s'' 1 True True)
             (''Error analyzing video: '' @ refused_message),
         trace =
           [PersistRaw ?raw, DetermineOutcome ?raw,
            Relocate ?raw (get_shot_video_path ''s'' 1 True False),
            GenerateFeedback (get_shot_video_path ''s'' 1 True False) True,
            RenderOverlay (get_shot_video_path ''s'' 1 True False)
              (get_shot_video_path ''s'' 1 True True)
              (''Error analyzing video: '' @ refused_message),
            PersistRecord 1 True (get_shot_video_path ''s'' 1 True True)
              (''Error analyzing video: '' @ refused_message),
            Callback 1 (Some True) (''Error analyzing video: '' @ refused_message)
              (Some (get_shot_video_path ''s'' 1 True True))]\<rparr>"
    by (simp add: analyze_shot_sync_def save_video_def determine_stage_def finish_stage_def
          made critique env logged_def no_sessions_def Let_def)
  have stored: "map_option shots
      (add_shot_metadata Map.empty ''2025-01-01T00:00:00'' ''s'' 1 True
         (get_shot_video_path ''s'' 1 True True)
         (''Error analyzing video: '' @ refused_message) ''s'')
      = Some [\<lparr>shot_number = 1, timestamp = ''2025-01-01T00:00:00'', shot_made = True,
                video_path = get_shot_video_path ''s'' 1 True True,
                critique = ''Error analyzing video: '' @ refused_message\<rparr>]"
    by (simp add: add_shot_metadata_def load_session_metadata_def save_session_metadata_def
          create_session_metadata_def Let_def)
  from raises made stored show ?thesis
    by (simp add: out)
qed

lemma report_error_callbacks:
  "filter is_callback (trace (report_error True w number made message))
     = filter is_callback (trace w) @ [Callback number made (''Error: '' @ message) None]"
  by (simp add: report_error_def logged_def)

lemma finish_stage_callbacks:
  "\<exists>made' text path.
     filter is_callback (trace (finish_stage env True w sid number made clip))
       = filter is_callback (trace w) @ [Callback number made' text path]"
  by (auto simp: finish_stage_def report_error_def logged_def Let_def
        split: sum.splits option.splits)

lemma determine_stage_callbacks:
  "determine_stage env w sid number given temp clip = Inl (w', made, message) \<Longrightarrow>
     filter is_callback (trace w') = filter is_callback (trace w)"
  "determine_stage env w sid number given temp clip = Inr (w', made', clip') \<Longrightarrow>
     filter is_callback (trace w') = filter is_callback (trace w)"
  by (auto simp: determine_stage_def logged_def Let_def split: option.splits if_splits)

lemma callbacks_of_task:
  "\<exists>made text path.
     filter is_callback (trace (analyze_shot_sync env True w sid number frames width height given))
       = filter is_callback (trace w)
         @ (if save_video env (get_shot_video_path sid number
                 (case given of None \<Rightarrow> False | Some made \<Rightarrow> made) False) frames width height
            then [Callback number made text path] else [])"
proof -
  let ?raw = "get_shot_video_path sid number
                (case given of None \<Rightarrow> False | Some made \<Rightarrow> made) False"
  let ?temp = "case given of None \<Rightarrow> False | Some made \<Rightarrow> made"
  show ?thesis
  proof (cases "save_video env ?raw frames width height")
    case False
    then show ?thesis
      by (simp add: analyze_shot_sync_def logged_def Let_def)
  next
    case True
    show ?thesis
    proof (cases "determine_stage env (logged w (PersistRaw ?raw)) sid number given ?temp ?raw")
      case (Inl failed)
      obtain w' made message where failed: "failed = (w', made, message)"
        by (cases failed) auto
      from determine_stage_callbacks(1) [OF Inl [unfolded failed]]
      have "filter is_callback (trace w') = filter is_callback (trace w)"
        by (simp add: logged_def)
      with True Inl failed show ?thesis
        by (auto simp: analyze_shot_sync_def Let_def report_error_callbacks)
    next
      case (Inr determined)
      obtain w' made clip where determined: "determined = (w', made, clip)"
        by (cases determined) auto
      from determine_stage_callbacks(2) [OF Inr [unfolded determined]]
      have same: "filter is_callback (trace w') = filter is_callback (trace w)"
        by (simp add: logged_def)
      from finish_stage_callbacks [of env w' sid number made clip]
      obtain made' feedback path where
        "filter is_callback (trace (finish_stage env True w' sid number made clip))
           = filter is_callback (trace w') @ [Callback number made' feedback path]"
        by blast
      with True Inr determined same show ?thesis
        by (auto simp: analyze_shot_sync_def Let_def)
    qed
  qed
qed

text \<open>
  C2, at the failing input.  A task with one frame is submitted while no video writer opens:
  \<open>save_video\<close> returns False and \<open>_analyze_shot_sync\<close> returns after the attempt to
  persist the raw clip, with a callback set and never invoked.
\<close>

theorem save_failure_invokes_no_callback:
  "save_video closed_writer (get_shot_video_path ''s'' 1 False False) [0 :: nat] 640 480 = False
   \<and> trace (analyze_shot_sync closed_writer True no_sessions ''s'' 1 [0 :: nat] 640 480 None)
       = [PersistRaw (get_shot_video_path ''s'' 1 False False)]
   \<and> filter is_callback
        (trace (analyze_shot_sync closed_writer True no_sessions ''s'' 1 [0 :: nat] 640 480 None))
       = []"
  by (simp add: analyze_shot_sync_def save_video_def closed_writer_def failing_classifier_def
        no_sessions_def logged_def Let_def)

end
